theory Spec2Isabelle
  imports Complex_Main
begin

section \<open>WiiMote virtual controller server: session registry and motion engine\<close>

text \<open>
  A shallow embedding of the server \<^verbatim>\<open>WiiMote-exe/exe.wiimote.py\<close>: the slot table
  with its statistics dictionaries, the pairing and telemetry listeners, the liveness
  sweep, the dashboard's disconnect, and the motion code run by the bridge loop.

  Conventions of the embedding:
  \<^item> Python \<^verbatim>\<open>float\<close> is idealised as \<^typ>\<open>real\<close>: rounding is not modelled, so a
    statement is about the arithmetic the code writes down, not about its last bits.
  \<^item> Every \<^verbatim>\<open>time.time()\<close> call is a parameter of the function that makes it.
  \<^item> \<^verbatim>\<open>secrets.token_hex(16)\<close> is a parameter, the fresh token.
  \<^item> The four dictionaries keyed by slot index are total functions on \<^typ>\<open>nat\<close> that
    the code reads and writes at the indices below \<open>MAX_CONTROLLERS\<close> only.
  \<^item> A decoded JSON object is a record of optional fields (\<open>None\<close>: key absent);
    a character is a code point below 256.
  \<^item> A listener's \<^verbatim>\<open>sendto\<close> calls are returned as the list of datagrams sent.
\<close>

subsection \<open>Constants\<close>

definition MAX_CONTROLLERS :: nat where "MAX_CONTROLLERS = 4"
definition TIMEOUT_SEC :: real where "TIMEOUT_SEC = 2.0"
definition DT_MIN :: real where "DT_MIN = 1 / 500"
definition DT_MAX :: real where "DT_MAX = 1 / 40"
definition CF_ALPHA :: real where "CF_ALPHA = 0.985"
definition ACC_G_TOL :: real where "ACC_G_TOL = 1.2"
definition DRIFT_ERR_THRESH :: real where "DRIFT_ERR_THRESH = 0.03"
definition DRIFT_STEP :: real where "DRIFT_STEP = 1 - CF_ALPHA"
definition INVERT_RX :: bool where "INVERT_RX = True"
definition INVERT_RY :: bool where "INVERT_RY = True"
definition RECENTER_HOLD_SEC :: real where "RECENTER_HOLD_SEC = 0.60"
definition SWING_THRESHOLD :: real where "SWING_THRESHOLD = 2.3"
definition SWING_COOLDOWN :: real where "SWING_COOLDOWN = 0.25"

definition WII_TO_BRIDGE :: "(string \<times> string) list" where
  "WII_TO_BRIDGE =
     [(''A'', ''A''), (''B'', ''B''), (''1'', ''X''), (''2'', ''Y''),
      (''+'', ''START''), (''-'', ''BACK''), (''HOME'', ''GUIDE''),
      (''UP'', ''UP''), (''DOWN'', ''DOWN''), (''LEFT'', ''LEFT''), (''RIGHT'', ''RIGHT'')]"

subsection \<open>Data model\<close>

record MotionState =
  last_ts :: real
  pitch :: real
  yaw :: real
  pitch0 :: real
  yaw0 :: real
  home_hold :: "real option"
  last_swing :: real

definition MotionState_default :: MotionState where
  "MotionState_default =
     \<lparr>last_ts = 0, pitch = 0, yaw = 0, pitch0 = 0, yaw0 = 0, home_hold = None, last_swing = 0\<rparr>"

type_synonym address = "string \<times> int"

record ControllerState =
  device_id :: string
  username :: string
  addr :: address
  token :: string
  buttons :: "string \<rightharpoonup> int"
  gyro :: "string \<rightharpoonup> real"
  accel :: "string \<rightharpoonup> real"
  motion :: MotionState

definition zero_vec :: "string \<rightharpoonup> real" where
  "zero_vec = [''x'' \<mapsto> 0, ''y'' \<mapsto> 0, ''z'' \<mapsto> 0]"

text \<open>The dataclass constructor with its field defaults.\<close>

definition ControllerState_new :: "string \<Rightarrow> string \<Rightarrow> address \<Rightarrow> string \<Rightarrow> ControllerState" where
  "ControllerState_new d u a t =
     \<lparr>device_id = d, username = u, addr = a, token = t, buttons = Map.empty,
      gyro = zero_vec, accel = zero_vec, motion = MotionState_default\<rparr>"

text \<open>The module globals \<^verbatim>\<open>controllers\<close>, \<^verbatim>\<open>last_seen\<close>, \<^verbatim>\<open>pkt_count\<close>, \<^verbatim>\<open>hz_est\<close>.\<close>

record registry =
  controllers :: "nat \<Rightarrow> ControllerState option"
  last_seen :: "nat \<Rightarrow> real"
  pkt_count :: "nat \<Rightarrow> int"
  hz_est :: "nat \<Rightarrow> real"

definition registry_init :: registry where
  "registry_init =
     \<lparr>controllers = (\<lambda>_. None), last_seen = (\<lambda>_. 0), pkt_count = (\<lambda>_. 0), hz_est = (\<lambda>_. 0)\<rparr>"

datatype reply = PAIR_ACCEPT nat string int | PAIR_DENY string

type_synonym datagram = "address \<times> reply"

subsection \<open>String helpers\<close>

text \<open>\<^verbatim>\<open>str.isspace\<close> on the code points below 256, and \<^verbatim>\<open>str.strip()\<close>.\<close>

definition py_isspace :: "char \<Rightarrow> bool" where
  "py_isspace ch \<longleftrightarrow> (of_char ch :: nat) \<in> {9, 10, 11, 12, 13, 28, 29, 30, 31, 32, 133, 160}"

definition py_strip :: "string \<Rightarrow> string" where
  "py_strip s = rev (dropWhile py_isspace (rev (dropWhile py_isspace s)))"

text \<open>\<^verbatim>\<open>str(j.get(key, default))\<close> for a field that is a string when present.\<close>

definition get_str :: "string option \<Rightarrow> string \<Rightarrow> string" where
  "get_str field dflt = (case field of None \<Rightarrow> dflt | Some s \<Rightarrow> s)"

subsection \<open>Telemetry listener\<close>

text \<open>The decoded telemetry object: the keys \<^verbatim>\<open>phone_listener\<close> reads.\<close>

record telemetry =
  tm_device_id :: "string option"
  tm_token :: "string option"
  tm_buttons :: "(string \<rightharpoonup> int) option"
  tm_gyro :: "(string \<rightharpoonup> real) option"
  tm_accel :: "(string \<rightharpoonup> real) option"

text \<open>\<^verbatim>\<open>j.get(key, {}) or {}\<close>.\<close>

definition get_dict :: "('k \<rightharpoonup> 'v) option \<Rightarrow> ('k \<rightharpoonup> 'v)" where
  "get_dict field = (case field of None \<Rightarrow> Map.empty | Some d \<Rightarrow> d)"

text \<open>
  The scan \<^verbatim>\<open>for s, c in controllers.items(): if c and c.device_id == device_id\<close>:
  the dictionary was built with the keys 0, 1, 2, 3 in this order, so the scan
  stops at the lowest matching index.
\<close>

definition bound_to :: "registry \<Rightarrow> string \<Rightarrow> nat \<Rightarrow> bool" where
  "bound_to r d s = (case controllers r s of None \<Rightarrow> False | Some c \<Rightarrow> device_id c = d)"

definition find_device :: "registry \<Rightarrow> string \<Rightarrow> nat option" where
  "find_device r d = find (bound_to r d) [0..<MAX_CONTROLLERS]"

text \<open>
  One iteration of the receive loop of \<^verbatim>\<open>phone_listener\<close> after a datagram has
  arrived from \<open>src\<close>; \<open>None\<close> is a datagram that \<^verbatim>\<open>json.loads\<close> rejects. The
  function has no \<^verbatim>\<open>sendto\<close>, so the list of datagrams sent is always empty.
\<close>

definition phone_listener :: "registry \<Rightarrow> real \<Rightarrow> address \<Rightarrow> telemetry option \<Rightarrow> registry \<times> datagram list" where
  "phone_listener r now src pkt =
     (case pkt of
        None \<Rightarrow> (r, [])
      | Some j \<Rightarrow>
          let dev = py_strip (get_str (tm_device_id j) []);
              tok = py_strip (get_str (tm_token j) [])
          in if dev = [] \<or> tok = [] then (r, [])
             else case find_device r dev of
                 None \<Rightarrow> (r, [])
               | Some slot \<Rightarrow>
                   (case controllers r slot of
                      None \<Rightarrow> (r, [])
                    | Some c \<Rightarrow>
                        if token c \<noteq> tok then (r, [])
                        else
                          (r\<lparr>last_seen := (last_seen r)(slot := now),
                              controllers := (controllers r)(slot := Some
                                 (c\<lparr>addr := src,
                                    buttons := get_dict (tm_buttons j),
                                    gyro := get_dict (tm_gyro j),
                                    accel := get_dict (tm_accel j)\<rparr>)),
                              pkt_count := (pkt_count r)(slot := pkt_count r slot + 1)\<rparr>, [])))"

subsection \<open>Pairing listener\<close>

text \<open>The decoded pairing object: the keys \<^verbatim>\<open>pair_server\<close> reads.\<close>

record pair_request =
  pr_type :: "string option"
  pr_device_id :: "string option"
  pr_username :: "string option"

text \<open>\<^verbatim>\<open>next((i for i in range(MAX_CONTROLLERS) if controllers[i] is None), None)\<close>.\<close>

definition first_free :: "registry \<Rightarrow> nat option" where
  "first_free r = find (\<lambda>i. controllers r i = None) [0..<MAX_CONTROLLERS]"

text \<open>
  One iteration of the receive loop of \<^verbatim>\<open>pair_server\<close> after a datagram has arrived
  from \<open>src\<close>. \<open>data_port\<close> is the configured \<^verbatim>\<open>DATA_PORT\<close>, \<open>fresh\<close> the value
  \<^verbatim>\<open>secrets.token_hex(16)\<close> returns if it is called, \<open>now\<close> the clock. The datagrams
  are those handed to \<^verbatim>\<open>sendto\<close> (whose failure the code ignores).
\<close>

definition pair_server ::
  "int \<Rightarrow> registry \<Rightarrow> real \<Rightarrow> string \<Rightarrow> address \<Rightarrow> pair_request option \<Rightarrow> registry \<times> datagram list" where
  "pair_server data_port r now fresh src pkt =
     (case pkt of
        None \<Rightarrow> (r, [])
      | Some j \<Rightarrow>
          if pr_type j \<noteq> Some ''PAIR_REQUEST'' then (r, [])
          else
            let dev = py_strip (get_str (pr_device_id j) []);
                user = take 64 (py_strip (get_str (pr_username j) ''Phone''))
            in if dev = [] then (r, [])
               else case find_device r dev of
                   Some slot \<Rightarrow>
                     (case controllers r slot of
                        None \<Rightarrow> (r, [])
                      | Some c \<Rightarrow>
                          let c' = c\<lparr>username := user, addr := src,
                                     token := (if token c \<noteq> [] then token c else fresh)\<rparr>
                          in (r\<lparr>controllers := (controllers r)(slot := Some c'),
                                 last_seen := (last_seen r)(slot := now)\<rparr>,
                              [(src, PAIR_ACCEPT slot (token c') data_port)]))
                 | None \<Rightarrow>
                     (case first_free r of
                        None \<Rightarrow> (r, [(src, PAIR_DENY ''NO_FREE_SLOTS'')])
                      | Some free \<Rightarrow>
                          let c = ControllerState_new dev user src fresh
                          in (r\<lparr>controllers := (controllers r)(free := Some c),
                                 last_seen := (last_seen r)(free := now)\<rparr>,
                              [(src, PAIR_ACCEPT free (token c) data_port)])))"

subsection \<open>Session destruction\<close>

text \<open>What \<^verbatim>\<open>cleanup_loop\<close> does to one slot index \<open>s\<close> at clock reading \<open>now\<close>.\<close>

definition cleanup_slot :: "real \<Rightarrow> registry \<Rightarrow> nat \<Rightarrow> registry" where
  "cleanup_slot now r s =
     (if controllers r s \<noteq> None \<and> now - last_seen r s > TIMEOUT_SEC
      then r\<lparr>controllers := (controllers r)(s := None),
             last_seen := (last_seen r)(s := 0),
             hz_est := (hz_est r)(s := 0),
             pkt_count := (pkt_count r)(s := 0)\<rparr>
      else r)"

text \<open>One pass of \<^verbatim>\<open>cleanup_loop\<close>: \<^verbatim>\<open>for s in range(MAX_CONTROLLERS)\<close>.\<close>

definition cleanup_loop :: "real \<Rightarrow> registry \<Rightarrow> registry" where
  "cleanup_loop now r = foldl (cleanup_slot now) r [0..<MAX_CONTROLLERS]"

text \<open>\<^verbatim>\<open>ModernUI.disconnect_slot\<close>, the dashboard's disconnect button.\<close>

definition disconnect_slot :: "nat \<Rightarrow> registry \<Rightarrow> registry" where
  "disconnect_slot slot r =
     r\<lparr>controllers := (controllers r)(slot := None),
       last_seen := (last_seen r)(slot := 0),
       hz_est := (hz_est r)(slot := 0)\<rparr>"

subsection \<open>Motion helpers\<close>

definition clamp :: "real \<Rightarrow> real \<Rightarrow> real \<Rightarrow> real" where
  "clamp v lo hi = max lo (min hi v)"

definition maybe_deg_to_rad :: "real \<Rightarrow> real" where
  "maybe_deg_to_rad v = (if \<bar>v\<bar> > 20 then v * pi / 180 else v)"

text \<open>\<^verbatim>\<open>math.atan2(y, x)\<close> on the reals (no signed zeros).\<close>

definition atan2 :: "real \<Rightarrow> real \<Rightarrow> real" where
  "atan2 y x =
     (if x > 0 then arctan (y / x)
      else if x < 0 \<and> y \<ge> 0 then arctan (y / x) + pi
      else if x < 0 then arctan (y / x) - pi
      else if y > 0 then pi / 2
      else if y < 0 then - (pi / 2)
      else 0)"

definition accel_to_pitch :: "real \<Rightarrow> real \<Rightarrow> real \<Rightarrow> real" where
  "accel_to_pitch ax ay az =
     (let denom = sqrt (ay * ay + az * az);
          denom = (if denom < 1 / 1000000 then 1 / 1000000 else denom)
      in atan2 (- ax) denom)"

text \<open>\<^verbatim>\<open>float(d.get(k, 0.0) or 0.0)\<close> on a dictionary of numbers.\<close>

definition axis :: "(string \<rightharpoonup> real) \<Rightarrow> string \<Rightarrow> real" where
  "axis d k = (case d k of None \<Rightarrow> 0 | Some v \<Rightarrow> v)"

text \<open>\<^verbatim>\<open>int(x)\<close> of a float: truncation toward zero.\<close>

definition py_int :: "real \<Rightarrow> int" where
  "py_int x = (if x < 0 then \<lceil>x\<rceil> else \<lfloor>x\<rfloor>)"

subsection \<open>The two motion functions\<close>

text \<open>\<^verbatim>\<open>update_motion(c)\<close>; it mutates \<^verbatim>\<open>c.motion\<close> in place and returns nothing.\<close>

definition update_motion :: "ControllerState \<Rightarrow> real \<Rightarrow> ControllerState" where
  "update_motion c now =
     (let m = motion c in
      if last_ts m = 0 then c\<lparr>motion := m\<lparr>last_ts := now\<rparr>\<rparr>
      else
        let dt = clamp (now - last_ts m) DT_MIN DT_MAX;
            m = m\<lparr>last_ts := now\<rparr>;
            gx = maybe_deg_to_rad (axis (gyro c) ''x'');
            gz = maybe_deg_to_rad (axis (gyro c) ''z'');
            m = m\<lparr>pitch := pitch m + gx * dt\<rparr>;
            m = m\<lparr>yaw := yaw m + gz * dt\<rparr>;
            ax = axis (accel c) ''x'';
            ay = axis (accel c) ''y'';
            az = axis (accel c) ''z'';
            acc_mag = sqrt (ax * ax + ay * ay + az * az)
        in if \<bar>acc_mag - 9.81\<bar> < ACC_G_TOL then
             let apitch = accel_to_pitch ax ay az;
                 err = apitch - pitch m
             in if \<bar>err\<bar> > DRIFT_ERR_THRESH
                then c\<lparr>motion := m\<lparr>pitch := pitch m + DRIFT_STEP * err\<rparr>\<rparr>
                else c\<lparr>motion := m\<rparr>
           else c\<lparr>motion := m\<rparr>)"

text \<open>
  \<^verbatim>\<open>compute_axes(c)\<close> with the two module constants \<^verbatim>\<open>INVERT_RX\<close>, \<^verbatim>\<open>INVERT_RY\<close>
  as parameters; the result is the mutated controller and the pair \<^verbatim>\<open>(RX, RY)\<close>.
\<close>

definition compute_axes_with ::
  "bool \<Rightarrow> bool \<Rightarrow> ControllerState \<Rightarrow> real \<Rightarrow> ControllerState \<times> int \<times> int" where
  "compute_axes_with inv_rx inv_ry c now =
     (let m = motion c in
      if last_ts m = 0 then (c\<lparr>motion := m\<lparr>last_ts := now\<rparr>\<rparr>, 0, 0)
      else
        let dt = clamp (now - last_ts m) 0.001 0.05;
            m = m\<lparr>last_ts := now\<rparr>;
            gx = maybe_deg_to_rad (axis (gyro c) ''x'');
            gy = maybe_deg_to_rad (axis (gyro c) ''y'');
            DZ = 0.015;
            gx = (if \<bar>gx\<bar> < DZ then 0 else gx);
            gy = (if \<bar>gy\<bar> < DZ then 0 else gy);
            m = m\<lparr>yaw := yaw m + gx * dt\<rparr>;
            m = m\<lparr>pitch := pitch m + gy * dt\<rparr>;
            m = m\<lparr>yaw := clamp (yaw m) (- 0.6) 0.6\<rparr>;
            m = m\<lparr>pitch := clamp (pitch m) (- 0.45) 0.45\<rparr>;
            rx = yaw m / 0.6;
            ry = - pitch m / 0.45;
            rx = (if inv_rx then - rx else rx);
            ry = (if inv_ry then - ry else ry)
        in (c\<lparr>motion := m\<rparr>, py_int (rx * 32767), py_int (ry * 32767)))"

definition compute_axes :: "ControllerState \<Rightarrow> real \<Rightarrow> ControllerState \<times> int \<times> int" where
  "compute_axes = compute_axes_with INVERT_RX INVERT_RY"

subsection \<open>The bridge loop\<close>

text \<open>
  The recenter block of \<^verbatim>\<open>bridge_loop\<close> (the \<^verbatim>\<open>home_now\<close> test). \<open>t\<close> is the first
  \<^verbatim>\<open>time.time()\<close> the block reads (stored as the hold start, or compared with it),
  \<open>t'\<close> the second one, read when the guard value is stored. The flag returned says
  that the branch assigning \<^verbatim>\<open>pitch0\<close> and \<^verbatim>\<open>yaw0\<close> ran.
\<close>

definition home_recenter :: "ControllerState \<Rightarrow> real \<Rightarrow> real \<Rightarrow> ControllerState \<times> bool" where
  "home_recenter c t t' =
     (let m = motion c;
          home_now = (case buttons c ''HOME'' of None \<Rightarrow> 0 | Some v \<Rightarrow> v)
      in if home_now = 1 then
           (case home_hold m of
              None \<Rightarrow> (c\<lparr>motion := m\<lparr>home_hold := Some t\<rparr>\<rparr>, False)
            | Some h \<Rightarrow>
                if t - h \<ge> RECENTER_HOLD_SEC
                then (c\<lparr>motion := m\<lparr>pitch0 := pitch m, yaw0 := yaw m,
                                       home_hold := Some (t' + 9999)\<rparr>\<rparr>, True)
                else (c, False))
         else (c\<lparr>motion := m\<lparr>home_hold := None\<rparr>\<rparr>, False))"

text \<open>The swing block; the flag is the local variable \<^verbatim>\<open>swing\<close>.\<close>

definition swing_check :: "ControllerState \<Rightarrow> real \<Rightarrow> ControllerState \<times> bool" where
  "swing_check c now =
     (let ax = axis (accel c) ''x'' in
      if \<bar>ax\<bar> > SWING_THRESHOLD \<and> now - last_swing (motion c) > SWING_COOLDOWN
      then (c\<lparr>motion := (motion c)\<lparr>last_swing := now\<rparr>\<rparr>, True)
      else (c, False))"

text \<open>Decimal text of an integer, as an f-string prints it.\<close>

definition digit_char :: "nat \<Rightarrow> char" where
  "digit_char d = ''0123456789'' ! d"

function str_nat :: "nat \<Rightarrow> string" where
  "str_nat n = (if n < 10 then [digit_char n] else str_nat (n div 10) @ [digit_char (n mod 10)])"
  by pat_completeness auto
termination
  by (relation "measure id") auto

declare str_nat.simps [simp del]

definition str_int :: "int \<Rightarrow> string" where
  "str_int i = (if i < 0 then CHR ''-'' # str_nat (nat (- i)) else str_nat (nat i))"

text \<open>\<^verbatim>\<open>sep.join(parts)\<close>.\<close>

fun join :: "string \<Rightarrow> string list \<Rightarrow> string" where
  "join sep [] = []"
| "join sep [p] = p"
| "join sep (p # q # ps) = p @ sep @ join sep (q # ps)"

text \<open>\<^verbatim>\<open>f"{bridge_key}={int(bool(btns.get(wii, 0)))}"\<close> for one entry of the table.\<close>

definition button_part :: "(string \<rightharpoonup> int) \<Rightarrow> string \<times> string \<Rightarrow> string" where
  "button_part btns e =
     snd e @ ''='' @ str_int (if (case btns (fst e) of None \<Rightarrow> 0 | Some v \<Rightarrow> v) \<noteq> 0 then 1 else 0)"

text \<open>The list \<^verbatim>\<open>parts\<close> that \<^verbatim>\<open>bridge_loop\<close> builds.\<close>

definition control_parts :: "(string \<rightharpoonup> int) \<Rightarrow> bool \<Rightarrow> int \<Rightarrow> int \<Rightarrow> string list" where
  "control_parts btns swing RX RY =
     map (button_part btns) WII_TO_BRIDGE
     @ (if swing then [''A=1''] else [])
     @ [''RX='' @ str_int RX, ''RY='' @ str_int RY]"

text \<open>
  The five clock readings of one pass of the loop body, in program order:
  in \<^verbatim>\<open>update_motion\<close>, the two of the recenter block, in \<^verbatim>\<open>compute_axes\<close>,
  and the one of the swing block.
\<close>

record clock =
  t_motion :: real
  t_home :: real
  t_arm :: real
  t_axes :: real
  t_swing :: real

text \<open>What one pass reports: the recenter flag, \<^verbatim>\<open>swing\<close>, \<^verbatim>\<open>parts\<close> and the line sent.\<close>

record tick_out =
  recentered :: bool
  swing :: bool
  parts :: "string list"
  line :: string

text \<open>
  One pass of the body of \<^verbatim>\<open>bridge_loop\<close> on the controller of the active slot
  (the pass does nothing when that slot is empty).
\<close>

definition bridge_tick :: "ControllerState \<Rightarrow> clock \<Rightarrow> ControllerState \<times> tick_out" where
  "bridge_tick c k =
     (let c = update_motion c (t_motion k);
          (c, fired) = home_recenter c (t_home k) (t_arm k);
          (c, RX, RY) = compute_axes c (t_axes k);
          (c, sw) = swing_check c (t_swing k);
          ps = control_parts (buttons c) sw RX RY
      in (c, \<lparr>recentered = fired, swing = sw, parts = ps, line = join '','' ps\<rparr>))"

text \<open>
  Between two passes the telemetry listener may overwrite the sample of the slot:
  \<open>with_sample\<close> stores a button map, a gyro and an accelerometer reading the way an
  accepted packet does. A run alternates the two; it returns the final controller and
  what each pass reported.
\<close>

type_synonym sample = "(string \<rightharpoonup> int) \<times> (string \<rightharpoonup> real) \<times> (string \<rightharpoonup> real)"

definition with_sample :: "ControllerState \<Rightarrow> sample \<Rightarrow> ControllerState" where
  "with_sample c s = c\<lparr>buttons := fst s, gyro := fst (snd s), accel := snd (snd s)\<rparr>"

fun bridge_run :: "ControllerState \<Rightarrow> (sample \<times> clock) list \<Rightarrow> ControllerState \<times> tick_out list" where
  "bridge_run c [] = (c, [])"
| "bridge_run c ((s, k) # rest) =
     (let (c1, out) = bridge_tick (with_sample c s) k;
          (c2, outs) = bridge_run c1 rest
      in (c2, out # outs))"

text \<open>A run of \<^verbatim>\<open>update_motion\<close> alone, one call per sample and clock reading.\<close>

fun motion_run :: "ControllerState \<Rightarrow> (sample \<times> real) list \<Rightarrow> ControllerState" where
  "motion_run c [] = c"
| "motion_run c ((s, now) # rest) = motion_run (update_motion (with_sample c s) now) rest"

subsection \<open>Concrete registries and datagrams\<close>

text \<open>A registry whose slot 0 holds the device \<open>abc\<close>, last seen at 5, with 7 packets counted.\<close>

definition reg_one :: registry where
  "reg_one = registry_init\<lparr>
      controllers := (controllers registry_init)
         (0 := Some (ControllerState_new ''abc'' ''Phone1'' (''10.0.0.2'', 4000) ''T1'')),
      last_seen := (last_seen registry_init)(0 := 5),
      pkt_count := (pkt_count registry_init)(0 := 7)\<rparr>"

text \<open>A registry with four sessions, of the devices \<open>d0\<close>, \<open>d1\<close>, \<open>d2\<close>, \<open>d3\<close>.\<close>

definition reg_full :: registry where
  "reg_full = registry_init\<lparr>
      controllers := (\<lambda>i. Some (ControllerState_new [CHR ''d'', digit_char i] ''Phone'' (''10.0.0.2'', 4000) ''T1''))\<rparr>"

definition pkt_wrong_token :: telemetry where
  "pkt_wrong_token =
     \<lparr>tm_device_id = Some ''abc'', tm_token = Some ''guess'',
      tm_buttons = Some [''A'' \<mapsto> 1], tm_gyro = None, tm_accel = None\<rparr>"

definition req_abc :: pair_request where
  "req_abc = \<lparr>pr_type = Some ''PAIR_REQUEST'', pr_device_id = Some ''abc'', pr_username = Some ''Phone1''\<rparr>"

definition req_new :: pair_request where
  "req_new = \<lparr>pr_type = Some ''PAIR_REQUEST'', pr_device_id = Some ''xyz'', pr_username = Some ''Phone2''\<rparr>"

subsection \<open>Vocabulary for statements about motion, and concrete controllers\<close>

text \<open>The magnitude \<^verbatim>\<open>acc_mag\<close> that \<open>update_motion\<close> computes from an accelerometer reading.\<close>

definition acc_mag :: "(string \<rightharpoonup> real) \<Rightarrow> real" where
  "acc_mag a =
     sqrt (axis a ''x'' * axis a ''x'' + axis a ''y'' * axis a ''y'' + axis a ''z'' * axis a ''z'')"

text \<open>The rate \<open>compute_axes\<close> integrates for one gyro axis, after its dead zone.\<close>

definition pointer_rate :: "ControllerState \<Rightarrow> string \<Rightarrow> real" where
  "pointer_rate c k =
     (let g = maybe_deg_to_rad (axis (gyro c) k) in if \<bar>g\<bar> < 0.015 then 0 else g)"

text \<open>Successive clock readings, starting after \<open>t\<close>, each between \<open>lo\<close> and \<open>hi\<close> later than the one before.\<close>

fun steps_within :: "real \<Rightarrow> real \<Rightarrow> real \<Rightarrow> real list \<Rightarrow> bool" where
  "steps_within lo hi t [] = True"
| "steps_within lo hi t (u # us) = (lo \<le> u - t \<and> u - t \<le> hi \<and> steps_within lo hi u us)"

text \<open>The same sample at \<open>n\<close> clock readings \<open>t + dt\<close>, \<open>t + 2 dt\<close>, and so on.\<close>

primrec uniform_run :: "sample \<Rightarrow> real \<Rightarrow> real \<Rightarrow> nat \<Rightarrow> (sample \<times> real) list" where
  "uniform_run s t dt 0 = []"
| "uniform_run s t dt (Suc n) = (s, t + dt) # uniform_run s (t + dt) dt n"

definition c_fresh :: ControllerState where
  "c_fresh = ControllerState_new ''abc'' ''Phone1'' (''10.0.0.2'', 4000) ''T1''"

text \<open>A controller whose integrator has run (last update at 1000) and is still at zero.\<close>

definition c_rest :: ControllerState where
  "c_rest = c_fresh\<lparr>motion := MotionState_default\<lparr>last_ts := 1000\<rparr>\<rparr>"

text \<open>The same with the angles at their clamp bounds.\<close>

definition c_at_clamp :: ControllerState where
  "c_at_clamp = c_fresh\<lparr>motion := MotionState_default\<lparr>last_ts := 1000, yaw := 0.6, pitch := 0.45\<rparr>\<rparr>"

text \<open>The same at zero, turning at 1 rad/s about every axis, in free fall.\<close>

definition c_turning :: ControllerState where
  "c_turning = c_fresh\<lparr>gyro := [''x'' \<mapsto> 1, ''y'' \<mapsto> 1, ''z'' \<mapsto> 1],
                       motion := MotionState_default\<lparr>last_ts := 1000\<rparr>\<rparr>"

text \<open>Gyro x-rate 0.1 with the device lying flat (accelerometer (0, 0, 9.81)), and in free fall.\<close>

definition level_sample :: sample where
  "level_sample = (Map.empty, [''x'' \<mapsto> 0.1, ''y'' \<mapsto> 0, ''z'' \<mapsto> 0],
                   [''x'' \<mapsto> 0, ''y'' \<mapsto> 0, ''z'' \<mapsto> 9.81])"

definition falling_sample :: sample where
  "falling_sample = (Map.empty, [''x'' \<mapsto> 0.1, ''y'' \<mapsto> 0, ''z'' \<mapsto> 0], zero_vec)"

text \<open>The same at zero, turning at 1 rad/s about the z axis only.\<close>

definition c_spin :: ControllerState where
  "c_spin = c_fresh\<lparr>gyro := [''x'' \<mapsto> 0, ''y'' \<mapsto> 0, ''z'' \<mapsto> 1],
                    motion := MotionState_default\<lparr>last_ts := 1000\<rparr>\<rparr>"

subsection \<open>Vocabulary for statements about the bridge loop, and concrete runs\<close>

text \<open>The value \<^verbatim>\<open>home_now\<close> and the accelerometer x the loop reads from a controller.\<close>

definition home_now :: "ControllerState \<Rightarrow> int" where
  "home_now c = (case buttons c ''HOME'' of None \<Rightarrow> 0 | Some v \<Rightarrow> v)"

text \<open>The clock readings of the swing block at the passes of a run that reported a swing.\<close>

fun swing_times :: "(sample \<times> clock) list \<Rightarrow> tick_out list \<Rightarrow> real list" where
  "swing_times ((s, k) # run) (out # outs) =
     (if swing out then t_swing k # swing_times run outs else swing_times run outs)"
| "swing_times run outs = []"

text \<open>The name of a field \<open>name=value\<close> of the control line.\<close>

definition field_key :: "string \<Rightarrow> string" where
  "field_key p = takeWhile (\<lambda>ch. ch \<noteq> CHR ''='') p"

text \<open>A pass all of whose clock readings are \<open>t\<close>.\<close>

definition clock_at :: "real \<Rightarrow> clock" where
  "clock_at t = \<lparr>t_motion = t, t_home = t, t_arm = t, t_axes = t, t_swing = t\<rparr>"

text \<open>Samples: HOME held, nothing pressed, and accelerometer x = 3.0 with nothing pressed.\<close>

definition home_sample :: sample where
  "home_sample = ([''HOME'' \<mapsto> 1], zero_vec, zero_vec)"

definition idle_sample :: sample where
  "idle_sample = ([''HOME'' \<mapsto> 0, ''A'' \<mapsto> 0], zero_vec, zero_vec)"

definition swing_sample :: sample where
  "swing_sample = ([''A'' \<mapsto> 0], zero_vec, [''x'' \<mapsto> 3, ''y'' \<mapsto> 0, ''z'' \<mapsto> 0])"

text \<open>A controller that swung at clock reading 1000.\<close>

definition c_swung :: ControllerState where
  "c_swung = c_fresh\<lparr>motion := MotionState_default\<lparr>last_ts := 1000, last_swing := 1000\<rparr>\<rparr>"

text \<open>The fields of a line: \<^verbatim>\<open>line.split(sep)\<close> for a separator of one character.\<close>

fun split_at :: "char \<Rightarrow> string \<Rightarrow> string list" where
  "split_at sep [] = [[]]"
| "split_at sep (ch # s) =
     (if ch = sep then [] # split_at sep s
      else (case split_at sep s of [] \<Rightarrow> [[ch]] | w # ws \<Rightarrow> (ch # w) # ws))"

section \<open>Properties\<close>

subsection \<open>Slot scans\<close>

lemma slot_range: "[0..<MAX_CONTROLLERS] = [0, 1, 2, 3]"
  by (simp add: MAX_CONTROLLERS_def upt_rec)

lemma find_device_Some:
  "find_device r d = Some s \<Longrightarrow>
     s < MAX_CONTROLLERS \<and> (\<exists>c. controllers r s = Some c \<and> device_id c = d)"
  by (auto simp: find_device_def bound_to_def find_Some_iff split: option.splits)

lemma find_device_None:
  "find_device r d = None \<longleftrightarrow>
     (\<forall>s<MAX_CONTROLLERS. \<forall>c. controllers r s = Some c \<longrightarrow> device_id c \<noteq> d)"
  by (auto simp: find_device_def bound_to_def find_None_iff split: option.splits)

lemma first_free_None:
  "first_free r = None \<longleftrightarrow> (\<forall>s<MAX_CONTROLLERS. controllers r s \<noteq> None)"
  by (auto simp: first_free_def find_None_iff)

lemma first_free_Some:
  "first_free r = Some f \<longleftrightarrow>
     f < MAX_CONTROLLERS \<and> controllers r f = None \<and> (\<forall>i<f. controllers r i \<noteq> None)"
  by (auto simp: first_free_def find_Some_iff)

lemma find_device_reg_one: "find_device reg_one ''abc'' = Some 0"
  by (simp add: find_device_def bound_to_def reg_one_def registry_init_def slot_range
      ControllerState_new_def)

lemma controllers_reg_one:
  "controllers reg_one 0 = Some (ControllerState_new ''abc'' ''Phone1'' (''10.0.0.2'', 4000) ''T1'')"
  by (simp add: reg_one_def registry_init_def)

subsection \<open>Telemetry that is not authorised\<close>

text \<open>
  Claim C1. A telemetry datagram is dropped without a trace when its device id or its
  token is empty, when no slot is bound to its device id, or when the slot bound to
  its device id holds another token: the registry (slot table, \<open>last_seen\<close>, packet
  counters, rate estimates) is the one before, and no datagram is sent. Device id and
  token are the strings the listener reads, that is, with surrounding white space
  stripped.
\<close>

theorem telemetry_mismatch_dropped:
  assumes "dev = py_strip (get_str (tm_device_id j) [])"
      and "tok = py_strip (get_str (tm_token j) [])"
      and "dev = [] \<or> tok = [] \<or> find_device r dev = None
           \<or> (\<exists>s c. find_device r dev = Some s \<and> controllers r s = Some c \<and> token c \<noteq> tok)"
  shows "phone_listener r now src (Some j) = (r, [])"
  using assms by (auto simp: phone_listener_def Let_def split: option.splits)

text \<open>The theorem at a packet for the device of slot 0 that guesses the token.\<close>

theorem telemetry_mismatch_dropped_witness:
  "find_device reg_one ''abc'' = Some 0
   \<and> (\<exists>c. controllers reg_one 0 = Some c \<and> token c \<noteq> ''guess'')
   \<and> phone_listener reg_one 1000 (''10.0.0.9'', 6000) (Some pkt_wrong_token) = (reg_one, [])"
proof -
  have d: "''abc'' = py_strip (get_str (tm_device_id pkt_wrong_token) [])"
    by (simp add: pkt_wrong_token_def get_str_def py_strip_def py_isspace_def)
  have t: "''guess'' = py_strip (get_str (tm_token pkt_wrong_token) [])"
    by (simp add: pkt_wrong_token_def get_str_def py_strip_def py_isspace_def)
  have c: "\<exists>c. controllers reg_one 0 = Some c \<and> token c \<noteq> ''guess''"
    by (simp add: controllers_reg_one ControllerState_new_def)
  with find_device_reg_one
  have h: "''abc'' = [] \<or> ''guess'' = [] \<or> find_device reg_one ''abc'' = None
           \<or> (\<exists>s c. find_device reg_one ''abc'' = Some s \<and> controllers reg_one s = Some c
                  \<and> token c \<noteq> ''guess'')"
    by simp
  from telemetry_mismatch_dropped [OF d t h] find_device_reg_one c show ?thesis
    by simp
qed

text \<open>The other branch, for comparison: a packet with the token of its slot is stored.\<close>

lemma telemetry_match_touches:
  assumes "dev = py_strip (get_str (tm_device_id j) [])"
      and "tok = py_strip (get_str (tm_token j) [])"
      and "dev \<noteq> []" and "tok \<noteq> []"
      and "find_device r dev = Some s" and "controllers r s = Some c" and "token c = tok"
  shows "phone_listener r now src (Some j) =
           (r\<lparr>last_seen := (last_seen r)(s := now),
              controllers := (controllers r)(s := Some
                 (c\<lparr>addr := src, buttons := get_dict (tm_buttons j),
                    gyro := get_dict (tm_gyro j), accel := get_dict (tm_accel j)\<rparr>)),
              pkt_count := (pkt_count r)(s := pkt_count r s + 1)\<rparr>, [])"
  using assms by (simp add: phone_listener_def Let_def)

subsection \<open>Pairing\<close>

text \<open>
  Claim C5. A pairing request with a non-empty device id that no slot is bound to:
  if some slot is empty, the session is created in the empty slot of lowest index,
  with the fresh token, and that slot and token are sent back in \<open>PAIR_ACCEPT\<close>;
  if no slot is empty, the answer is \<open>PAIR_DENY\<close> with reason \<open>NO_FREE_SLOTS\<close> and
  the registry is the one before.
\<close>

theorem pair_new_device:
  assumes "pr_type j = Some ''PAIR_REQUEST''"
      and "dev = py_strip (get_str (pr_device_id j) [])"
      and "user = take 64 (py_strip (get_str (pr_username j) ''Phone''))"
      and "dev \<noteq> []"
      and "\<forall>s<MAX_CONTROLLERS. \<forall>c. controllers r s = Some c \<longrightarrow> device_id c \<noteq> dev"
  shows "((\<exists>s<MAX_CONTROLLERS. controllers r s = None) \<longrightarrow>
            (\<exists>free<MAX_CONTROLLERS. controllers r free = None \<and> (\<forall>i<free. controllers r i \<noteq> None) \<and>
               pair_server dp r now fresh src (Some j) =
                 (r\<lparr>controllers := (controllers r)(free := Some (ControllerState_new dev user src fresh)),
                    last_seen := (last_seen r)(free := now)\<rparr>,
                  [(src, PAIR_ACCEPT free fresh dp)])))
       \<and> ((\<forall>s<MAX_CONTROLLERS. controllers r s \<noteq> None) \<longrightarrow>
            pair_server dp r now fresh src (Some j) = (r, [(src, PAIR_DENY ''NO_FREE_SLOTS'')]))"
proof -
  from assms(5) have nodev: "find_device r dev = None"
    by (simp add: find_device_None)
  show ?thesis
  proof (cases "first_free r")
    case None
    then have full: "\<forall>s<MAX_CONTROLLERS. controllers r s \<noteq> None"
      by (simp add: first_free_None)
    have "pair_server dp r now fresh src (Some j) = (r, [(src, PAIR_DENY ''NO_FREE_SLOTS'')])"
      using assms(1-4) nodev None by (simp add: pair_server_def Let_def)
    with full show ?thesis by blast
  next
    case (Some f)
    then have f: "f < MAX_CONTROLLERS" "controllers r f = None" "\<forall>i<f. controllers r i \<noteq> None"
      by (simp_all add: first_free_Some)
    have "pair_server dp r now fresh src (Some j) =
            (r\<lparr>controllers := (controllers r)(f := Some (ControllerState_new dev user src fresh)),
               last_seen := (last_seen r)(f := now)\<rparr>,
             [(src, PAIR_ACCEPT f fresh dp)])"
      using assms(1-4) nodev Some
      by (simp add: pair_server_def Let_def ControllerState_new_def)
    with f show ?thesis by blast
  qed
qed

text \<open>
  The theorem at two requests of the unknown device \<open>xyz\<close>: with slot 0 taken and
  the others empty it gets slot 1; with all four slots taken it is denied.
\<close>

theorem pair_new_device_witness:
  "pair_server 5005 reg_one 1000 ''F'' (''10.0.0.3'', 4100) (Some req_new) =
     (reg_one\<lparr>controllers := (controllers reg_one)
          (1 := Some (ControllerState_new ''xyz'' ''Phone2'' (''10.0.0.3'', 4100) ''F'')),
        last_seen := (last_seen reg_one)(1 := 1000)\<rparr>,
      [((''10.0.0.3'', 4100), PAIR_ACCEPT 1 ''F'' 5005)])
   \<and> pair_server 5005 reg_full 1000 ''F'' (''10.0.0.3'', 4100) (Some req_new) =
     (reg_full, [((''10.0.0.3'', 4100), PAIR_DENY ''NO_FREE_SLOTS'')])"
proof -
  have ty: "pr_type req_new = Some ''PAIR_REQUEST''"
    by (simp add: req_new_def)
  have d: "''xyz'' = py_strip (get_str (pr_device_id req_new) [])"
    by (simp add: req_new_def get_str_def py_strip_def py_isspace_def)
  have u: "''Phone2'' = take 64 (py_strip (get_str (pr_username req_new) ''Phone''))"
    by (simp add: req_new_def get_str_def py_strip_def py_isspace_def)
  have ne: "''xyz'' \<noteq> []" by simp
  have unb1: "\<forall>s<MAX_CONTROLLERS. \<forall>c. controllers reg_one s = Some c \<longrightarrow> device_id c \<noteq> ''xyz''"
    by (simp add: reg_one_def registry_init_def ControllerState_new_def)
  have unb2: "\<forall>s<MAX_CONTROLLERS. \<forall>c. controllers reg_full s = Some c \<longrightarrow> device_id c \<noteq> ''xyz''"
    by (auto simp add: reg_full_def registry_init_def ControllerState_new_def)
  have free1: "\<exists>s<MAX_CONTROLLERS. controllers reg_one s = None"
    by (rule exI [of _ 1]) (simp add: reg_one_def registry_init_def MAX_CONTROLLERS_def)
  have full2: "\<forall>s<MAX_CONTROLLERS. controllers reg_full s \<noteq> None"
    by (simp add: reg_full_def registry_init_def)
  from pair_new_device [OF ty d u ne unb1, of 5005 1000 "''F''" "(''10.0.0.3'', 4100)"] free1
  obtain free where f: "controllers reg_one free = None" "\<forall>i<free. controllers reg_one i \<noteq> None"
    and eq: "pair_server 5005 reg_one 1000 ''F'' (''10.0.0.3'', 4100) (Some req_new) =
       (reg_one\<lparr>controllers := (controllers reg_one)
            (free := Some (ControllerState_new ''xyz'' ''Phone2'' (''10.0.0.3'', 4100) ''F'')),
          last_seen := (last_seen reg_one)(free := 1000)\<rparr>,
        [((''10.0.0.3'', 4100), PAIR_ACCEPT free ''F'' 5005)])"
    by blast
  have "controllers reg_one 1 = None" "controllers reg_one 0 \<noteq> None"
    by (simp_all add: reg_one_def registry_init_def)
  with f have "free = 1"
    by (metis less_one linorder_neqE_nat)
  with eq have one: "pair_server 5005 reg_one 1000 ''F'' (''10.0.0.3'', 4100) (Some req_new) =
     (reg_one\<lparr>controllers := (controllers reg_one)
          (1 := Some (ControllerState_new ''xyz'' ''Phone2'' (''10.0.0.3'', 4100) ''F'')),
        last_seen := (last_seen reg_one)(1 := 1000)\<rparr>,
      [((''10.0.0.3'', 4100), PAIR_ACCEPT 1 ''F'' 5005)])"
    by simp
  from pair_new_device [OF ty d u ne unb2, of 5005 1000 "''F''" "(''10.0.0.3'', 4100)"] full2
  have two: "pair_server 5005 reg_full 1000 ''F'' (''10.0.0.3'', 4100) (Some req_new) =
     (reg_full, [((''10.0.0.3'', 4100), PAIR_DENY ''NO_FREE_SLOTS'')])"
    by blast
  from one two show ?thesis by simp
qed

text \<open>
  Claim C4, as the code has it. A pairing request whose device id is bound to an
  occupied slot that holds a non-empty token (every token the server issues is 32
  hexadecimal digits) is answered with \<open>PAIR_ACCEPT\<close> carrying that slot and its
  existing token; no token is generated. The session's display name and address are
  overwritten and the slot's \<open>last_seen\<close> is set to the clock reading; the token, the
  device id, the sample, the motion state, every other slot and the two statistics
  tables are the ones before.
\<close>

theorem pair_refresh:
  assumes "pr_type j = Some ''PAIR_REQUEST''"
      and "dev = py_strip (get_str (pr_device_id j) [])"
      and "user = take 64 (py_strip (get_str (pr_username j) ''Phone''))"
      and "dev \<noteq> []"
      and "find_device r dev = Some s"
      and "controllers r s = Some c"
      and "token c \<noteq> []"
  shows "pair_server dp r now fresh src (Some j) =
           (r\<lparr>controllers := (controllers r)(s := Some (c\<lparr>username := user, addr := src\<rparr>)),
              last_seen := (last_seen r)(s := now)\<rparr>,
            [(src, PAIR_ACCEPT s (token c) dp)])"
  using assms by (simp add: pair_server_def Let_def)

text \<open>The theorem at a second request of the device in slot 0, from a new address.\<close>

theorem pair_refresh_witness:
  "pair_server 5005 reg_one 1000 ''F'' (''10.0.0.7'', 4001) (Some req_abc) =
     (reg_one\<lparr>controllers := (controllers reg_one)
          (0 := Some (ControllerState_new ''abc'' ''Phone1'' (''10.0.0.7'', 4001) ''T1'')),
        last_seen := (last_seen reg_one)(0 := 1000)\<rparr>,
      [((''10.0.0.7'', 4001), PAIR_ACCEPT 0 ''T1'' 5005)])"
proof -
  have ty: "pr_type req_abc = Some ''PAIR_REQUEST''"
    by (simp add: req_abc_def)
  have d: "''abc'' = py_strip (get_str (pr_device_id req_abc) [])"
    by (simp add: req_abc_def get_str_def py_strip_def py_isspace_def)
  have u: "''Phone1'' = take 64 (py_strip (get_str (pr_username req_abc) ''Phone''))"
    by (simp add: req_abc_def get_str_def py_strip_def py_isspace_def)
  have ne: "''abc'' \<noteq> []" by simp
  have tk: "token (ControllerState_new ''abc'' ''Phone1'' (''10.0.0.2'', 4000) ''T1'') \<noteq> []"
    by (simp add: ControllerState_new_def)
  from pair_refresh [OF ty d u ne find_device_reg_one controllers_reg_one tk, of 5005 1000 "''F''" "(''10.0.0.7'', 4001)"]
  show ?thesis by (simp add: ControllerState_new_def)
qed

text \<open>
  Claim C4 as stated says that the refresh writes the display name and the address
  only. At the same request the slot's \<open>last_seen\<close> goes from 5 to the clock reading
  1000, so the registry afterwards is not the old one with name and address replaced.
\<close>

theorem pair_refresh_touches_last_seen:
  "last_seen reg_one 0 = 5
   \<and> last_seen (fst (pair_server 5005 reg_one 1000 ''F'' (''10.0.0.7'', 4001) (Some req_abc))) 0 = 1000
   \<and> fst (pair_server 5005 reg_one 1000 ''F'' (''10.0.0.7'', 4001) (Some req_abc)) \<noteq>
       reg_one\<lparr>controllers := (controllers reg_one)
          (0 := Some (ControllerState_new ''abc'' ''Phone1'' (''10.0.0.7'', 4001) ''T1''))\<rparr>"
proof -
  have a: "last_seen reg_one 0 = 5"
    by (simp add: reg_one_def registry_init_def)
  have b: "last_seen (fst (pair_server 5005 reg_one 1000 ''F'' (''10.0.0.7'', 4001) (Some req_abc))) 0 = 1000"
    by (simp add: pair_server_def Let_def req_abc_def get_str_def py_strip_def py_isspace_def
        find_device_reg_one controllers_reg_one)
  have c: "last_seen (reg_one\<lparr>controllers := (controllers reg_one)
          (0 := Some (ControllerState_new ''abc'' ''Phone1'' (''10.0.0.7'', 4001) ''T1''))\<rparr>) 0 = 5"
    by (simp add: a)
  have "fst (pair_server 5005 reg_one 1000 ''F'' (''10.0.0.7'', 4001) (Some req_abc)) \<noteq>
       reg_one\<lparr>controllers := (controllers reg_one)
          (0 := Some (ControllerState_new ''abc'' ''Phone1'' (''10.0.0.7'', 4001) ''T1''))\<rparr>"
  proof
    assume "fst (pair_server 5005 reg_one 1000 ''F'' (''10.0.0.7'', 4001) (Some req_abc)) =
       reg_one\<lparr>controllers := (controllers reg_one)
          (0 := Some (ControllerState_new ''abc'' ''Phone1'' (''10.0.0.7'', 4001) ''T1''))\<rparr>"
    with b c show False by simp
  qed
  with a b show ?thesis by simp
qed

subsection \<open>Session destruction\<close>

lemma cleanup_fold_controllers:
  "controllers (foldl (cleanup_slot now) r ss) s =
     (if s \<in> set ss \<and> controllers r s \<noteq> None \<and> now - last_seen r s > TIMEOUT_SEC
      then None else controllers r s)"
  by (induction ss arbitrary: r) (auto simp: cleanup_slot_def)

lemma cleanup_fold_pkt_count:
  "pkt_count (foldl (cleanup_slot now) r ss) s =
     (if s \<in> set ss \<and> controllers r s \<noteq> None \<and> now - last_seen r s > TIMEOUT_SEC
      then 0 else pkt_count r s)"
  by (induction ss arbitrary: r) (auto simp: cleanup_slot_def)

lemma cleanup_fold_hz_est:
  "hz_est (foldl (cleanup_slot now) r ss) s =
     (if s \<in> set ss \<and> controllers r s \<noteq> None \<and> now - last_seen r s > TIMEOUT_SEC
      then 0 else hz_est r s)"
  by (induction ss arbitrary: r) (auto simp: cleanup_slot_def)

lemma cleanup_fold_last_seen:
  "last_seen (foldl (cleanup_slot now) r ss) s =
     (if s \<in> set ss \<and> controllers r s \<noteq> None \<and> now - last_seen r s > TIMEOUT_SEC
      then 0 else last_seen r s)"
  by (induction ss arbitrary: r) (auto simp: cleanup_slot_def)

text \<open>
  The liveness sweep: a session not seen for more than \<open>TIMEOUT_SEC\<close> is removed and
  the three tables are reset at its index, the packet counter among them.
\<close>

lemma cleanup_loop_evicts:
  assumes "s < MAX_CONTROLLERS" and "controllers r s \<noteq> None"
      and "now - last_seen r s > TIMEOUT_SEC"
  shows "controllers (cleanup_loop now r) s = None \<and> last_seen (cleanup_loop now r) s = 0
         \<and> hz_est (cleanup_loop now r) s = 0 \<and> pkt_count (cleanup_loop now r) s = 0"
  using assms
  by (simp add: cleanup_loop_def cleanup_fold_controllers cleanup_fold_pkt_count
      cleanup_fold_hz_est cleanup_fold_last_seen)

lemma cleanup_loop_keeps:
  assumes "now - last_seen r s \<le> TIMEOUT_SEC"
  shows "controllers (cleanup_loop now r) s = controllers r s
         \<and> last_seen (cleanup_loop now r) s = last_seen r s
         \<and> hz_est (cleanup_loop now r) s = hz_est r s
         \<and> pkt_count (cleanup_loop now r) s = pkt_count r s"
  using assms
  by (simp add: cleanup_loop_def cleanup_fold_controllers cleanup_fold_pkt_count
      cleanup_fold_hz_est cleanup_fold_last_seen)

text \<open>
  Claim C6 asks that every destruction clears the packet counter of the slot. The
  dashboard's disconnect empties slot 0 and zeroes its \<open>last_seen\<close> and rate estimate,
  but the 7 packets counted for the slot are still counted afterwards.
\<close>

theorem disconnect_slot_keeps_pkt_count:
  "controllers reg_one 0 \<noteq> None
   \<and> controllers (disconnect_slot 0 reg_one) 0 = None
   \<and> last_seen (disconnect_slot 0 reg_one) 0 = 0
   \<and> hz_est (disconnect_slot 0 reg_one) 0 = 0
   \<and> pkt_count (disconnect_slot 0 reg_one) 0 = 7"
  by (simp add: disconnect_slot_def reg_one_def registry_init_def)

subsection \<open>Motion: helpers\<close>

lemma clamp_bounds: "lo \<le> hi \<Longrightarrow> lo \<le> clamp v lo hi \<and> clamp v lo hi \<le> hi"
  by (simp add: clamp_def)

lemma clamp_id: "lo \<le> v \<Longrightarrow> v \<le> hi \<Longrightarrow> clamp v lo hi = v"
  by (simp add: clamp_def)

lemma py_int_of_int: "py_int (of_int i) = i"
  by (simp add: py_int_def)

text \<open>\<open>update_motion\<close> writes \<open>last_ts\<close>, \<open>pitch\<close> and \<open>yaw\<close> and nothing else.\<close>

lemma update_motion_frame:
  "update_motion c now =
     c\<lparr>motion := (motion c)\<lparr>last_ts := now,
          pitch := pitch (motion (update_motion c now)),
          yaw := yaw (motion (update_motion c now))\<rparr>\<rparr>"
  by (simp add: update_motion_def Let_def)

text \<open>What \<open>compute_axes\<close> leaves in the controller once the integrator has started.\<close>

lemma compute_axes_with_state:
  assumes "last_ts (motion c) \<noteq> 0"
  shows "fst (compute_axes_with inv_rx inv_ry c now) =
           c\<lparr>motion := (motion c)\<lparr>last_ts := now,
               yaw := clamp (yaw (motion c)
                        + pointer_rate c ''x'' * clamp (now - last_ts (motion c)) 0.001 0.05) (- 0.6) 0.6,
               pitch := clamp (pitch (motion c)
                        + pointer_rate c ''y'' * clamp (now - last_ts (motion c)) 0.001 0.05) (- 0.45) 0.45\<rparr>\<rparr>"
  using assms by (simp add: compute_axes_with_def Let_def pointer_rate_def)

lemma compute_axes_with_first:
  assumes "last_ts (motion c) = 0"
  shows "compute_axes_with inv_rx inv_ry c now = (c\<lparr>motion := (motion c)\<lparr>last_ts := now\<rparr>\<rparr>, 0, 0)"
  using assms by (simp add: compute_axes_with_def Let_def)

lemma compute_axes_with_sticks:
  assumes "last_ts (motion c) \<noteq> 0"
  shows "snd (compute_axes_with inv_rx inv_ry c now) =
           (py_int ((if inv_rx then - (yaw (motion (fst (compute_axes_with inv_rx inv_ry c now))) / 0.6)
                     else yaw (motion (fst (compute_axes_with inv_rx inv_ry c now))) / 0.6) * 32767),
            py_int ((if inv_ry then - (- pitch (motion (fst (compute_axes_with inv_rx inv_ry c now))) / 0.45)
                     else - pitch (motion (fst (compute_axes_with inv_rx inv_ry c now))) / 0.45) * 32767))"
  using assms by (simp add: compute_axes_with_def Let_def)

lemma compute_axes_at_clamp:
  "compute_axes c_at_clamp (64001 / 64) =
     (c_at_clamp\<lparr>motion := (motion c_at_clamp)\<lparr>last_ts := 64001 / 64\<rparr>\<rparr>, - 32767, 32767)"
  by (simp add: compute_axes_def compute_axes_with_def c_at_clamp_def c_fresh_def
      ControllerState_new_def MotionState_default_def Let_def zero_vec_def axis_def
      maybe_deg_to_rad_def clamp_def INVERT_RX_def INVERT_RY_def py_int_def)

subsection \<open>Stick values\<close>

text \<open>
  Claim C3, as the code has it. Once the integrator has started (\<open>last_ts\<close> is not 0; on
  the call that finds it 0 the function stores the clock and returns (0, 0)), the
  stick values come from the angles left in the motion state: the yaw divided by its
  clamp bound 0.6 and the negated pitch divided by its clamp bound 0.45, both
  quotients within [-1, 1]; then each axis whose inversion flag is set is negated, the
  value is multiplied by 32767 and truncated toward zero. With the flag of the pitch
  axis set the pitch is thus negated twice. In particular, yaw 0.6 with
  the yaw flag set gives RX = -32767.
\<close>

theorem compute_axes_output:
  assumes "last_ts (motion c) \<noteq> 0"
      and "compute_axes_with inv_rx inv_ry c now = (c', RX, RY)"
  shows "\<bar>yaw (motion c') / 0.6\<bar> \<le> 1 \<and> \<bar>- pitch (motion c') / 0.45\<bar> \<le> 1
       \<and> RX = py_int ((if inv_rx then - (yaw (motion c') / 0.6) else yaw (motion c') / 0.6) * 32767)
       \<and> RY = py_int ((if inv_ry then - (- pitch (motion c') / 0.45) else - pitch (motion c') / 0.45) * 32767)
       \<and> (inv_rx \<and> yaw (motion c') = 0.6 \<longrightarrow> RX = - 32767)"
proof -
  from assms(2) have c': "c' = fst (compute_axes_with inv_rx inv_ry c now)"
    and out: "(RX, RY) = snd (compute_axes_with inv_rx inv_ry c now)"
    by simp_all
  have y: "- 0.6 \<le> yaw (motion c') \<and> yaw (motion c') \<le> 0.6"
    unfolding c' compute_axes_with_state [OF assms(1)]
    using clamp_bounds [of "- 0.6" "0.6"] by simp
  have p: "- 0.45 \<le> pitch (motion c') \<and> pitch (motion c') \<le> 0.45"
    unfolding c' compute_axes_with_state [OF assms(1)]
    using clamp_bounds [of "- 0.45" "0.45"] by simp
  from y have yb: "\<bar>yaw (motion c') / 0.6\<bar> \<le> 1" by (simp add: abs_le_iff)
  from p have pb: "\<bar>- pitch (motion c') / 0.45\<bar> \<le> 1" by (simp add: abs_le_iff)
  from out compute_axes_with_sticks [OF assms(1), of inv_rx inv_ry now]
  have rx: "RX = py_int ((if inv_rx then - (yaw (motion c') / 0.6) else yaw (motion c') / 0.6) * 32767)"
    and ry: "RY = py_int ((if inv_ry then - (- pitch (motion c') / 0.45) else - pitch (motion c') / 0.45) * 32767)"
    unfolding c' by simp_all
  have "inv_rx \<and> yaw (motion c') = 0.6 \<longrightarrow> RX = - 32767"
    unfolding rx by (simp add: py_int_def)
  with yb pb rx ry show ?thesis by simp
qed

text \<open>The theorem at the configured flags, for a controller with both angles at their bounds.\<close>

theorem compute_axes_output_witness:
  "last_ts (motion c_at_clamp) \<noteq> 0
   \<and> compute_axes_with INVERT_RX INVERT_RY c_at_clamp (64001 / 64) =
       (c_at_clamp\<lparr>motion := (motion c_at_clamp)\<lparr>last_ts := 64001 / 64\<rparr>\<rparr>, - 32767, 32767)
   \<and> INVERT_RX
   \<and> yaw (motion (c_at_clamp\<lparr>motion := (motion c_at_clamp)\<lparr>last_ts := 64001 / 64\<rparr>\<rparr>)) = 0.6
   \<and> (- 32767 :: int) = py_int ((if INVERT_RX then - (0.6 / 0.6) else 0.6 / 0.6) * 32767)
   \<and> (32767 :: int) = py_int ((if INVERT_RY then - (- 0.45 / 0.45) else - 0.45 / 0.45) * 32767)"
proof -
  have nz: "last_ts (motion c_at_clamp) \<noteq> 0"
    by (simp add: c_at_clamp_def MotionState_default_def)
  have ev: "compute_axes_with INVERT_RX INVERT_RY c_at_clamp (64001 / 64) =
     (c_at_clamp\<lparr>motion := (motion c_at_clamp)\<lparr>last_ts := 64001 / 64\<rparr>\<rparr>, - 32767, 32767)"
    using compute_axes_at_clamp by (simp add: compute_axes_def)
  have yw: "yaw (motion (c_at_clamp\<lparr>motion := (motion c_at_clamp)\<lparr>last_ts := 64001 / 64\<rparr>\<rparr>)) = 0.6"
    and pt: "pitch (motion (c_at_clamp\<lparr>motion := (motion c_at_clamp)\<lparr>last_ts := 64001 / 64\<rparr>\<rparr>)) = 0.45"
    by (simp_all add: c_at_clamp_def MotionState_default_def)
  have fl: "INVERT_RX" by (simp add: INVERT_RX_def)
  from compute_axes_output [OF nz ev]
  have "(- 32767 :: int) = py_int ((if INVERT_RX then - (0.6 / 0.6) else 0.6 / 0.6) * 32767)"
    and "(32767 :: int) = py_int ((if INVERT_RY then - (- 0.45 / 0.45) else - 0.45 / 0.45) * 32767)"
    unfolding yw pt by simp_all
  with nz ev fl yw show ?thesis by simp
qed

text \<open>
  Claim C3 as stated divides the pitch by 0.45 and negates it when the flag is set:
  pitch 0.45 with \<open>INVERT_RY\<close> set would give RY = -32767. The code gives 32767.
\<close>

theorem compute_axes_pitch_sign:
  "INVERT_RY
   \<and> pitch (motion (fst (compute_axes c_at_clamp (64001 / 64)))) = 0.45
   \<and> snd (snd (compute_axes c_at_clamp (64001 / 64))) = 32767
   \<and> py_int (- (0.45 / 0.45) * 32767) = - 32767"
  unfolding compute_axes_at_clamp
  by (simp add: INVERT_RY_def py_int_def c_at_clamp_def MotionState_default_def)

subsection \<open>One pitch and one yaw for both motion functions\<close>

text \<open>Neither function writes the zero references, the hold timer or the swing time.\<close>

lemma update_motion_keeps_references:
  "pitch0 (motion (update_motion c now)) = pitch0 (motion c)
   \<and> yaw0 (motion (update_motion c now)) = yaw0 (motion c)
   \<and> home_hold (motion (update_motion c now)) = home_hold (motion c)
   \<and> last_swing (motion (update_motion c now)) = last_swing (motion c)"
  by (simp add: update_motion_def Let_def)

lemma compute_axes_keeps_references:
  "pitch0 (motion (fst (compute_axes c now))) = pitch0 (motion c)
   \<and> yaw0 (motion (fst (compute_axes c now))) = yaw0 (motion c)
   \<and> home_hold (motion (fst (compute_axes c now))) = home_hold (motion c)
   \<and> last_swing (motion (fst (compute_axes c now))) = last_swing (motion c)"
  by (simp add: compute_axes_def compute_axes_with_def Let_def)

text \<open>
  Claim C2 asks for two independent accumulators. The motion state has one \<open>pitch\<close>
  and one \<open>yaw\<close>, and both functions integrate into them. From angles at zero, at 1
  rad/s about every axis and 1/64 s after the last update: \<open>update_motion\<close> moves the
  pitch and the yaw that \<open>compute_axes\<close> clamps and maps to the sticks, and
  \<open>compute_axes\<close> moves the pitch that \<open>update_motion\<close> integrates and corrects. A
  turn about z alone, which \<open>compute_axes\<close> never reads, reaches the stick: after
  \<open>update_motion\<close> the next \<open>compute_axes\<close> returns RX = -853.
\<close>

theorem motion_accumulators_shared:
  "pitch (motion c_turning) = 0 \<and> yaw (motion c_turning) = 0
   \<and> pitch (motion (update_motion c_turning (64001 / 64))) = 1 / 64
   \<and> yaw (motion (update_motion c_turning (64001 / 64))) = 1 / 64
   \<and> pitch (motion (fst (compute_axes c_turning (64001 / 64)))) = 1 / 64
   \<and> snd (compute_axes c_spin (64001 / 64)) = (0, 0)
   \<and> snd (compute_axes (update_motion c_spin (64001 / 64)) (64002 / 64)) = (- 853, 0)"
proof -
  have a: "pitch (motion c_turning) = 0 \<and> yaw (motion c_turning) = 0"
    by (simp add: c_turning_def MotionState_default_def)
  have b: "motion (update_motion c_turning (64001 / 64)) =
             MotionState_default\<lparr>last_ts := 64001 / 64, pitch := 1 / 64, yaw := 1 / 64\<rparr>"
    by (simp add: update_motion_def c_turning_def c_fresh_def ControllerState_new_def
        MotionState_default_def Let_def zero_vec_def axis_def maybe_deg_to_rad_def clamp_def
        DT_MIN_def DT_MAX_def ACC_G_TOL_def)
  have c: "motion (fst (compute_axes c_turning (64001 / 64))) =
             MotionState_default\<lparr>last_ts := 64001 / 64, pitch := 1 / 64, yaw := 1 / 64\<rparr>"
    by (simp add: compute_axes_def compute_axes_with_def c_turning_def c_fresh_def
        ControllerState_new_def MotionState_default_def Let_def axis_def maybe_deg_to_rad_def
        clamp_def)
  have d: "snd (compute_axes c_spin (64001 / 64)) = (0, 0)"
    by (simp add: compute_axes_def compute_axes_with_def c_spin_def c_fresh_def
        ControllerState_new_def MotionState_default_def Let_def axis_def maybe_deg_to_rad_def
        clamp_def py_int_def INVERT_RX_def INVERT_RY_def)
  have e: "update_motion c_spin (64001 / 64) =
             c_spin\<lparr>motion := MotionState_default\<lparr>last_ts := 64001 / 64, yaw := 1 / 64\<rparr>\<rparr>"
    by (simp add: update_motion_def c_spin_def c_fresh_def ControllerState_new_def
        MotionState_default_def Let_def zero_vec_def axis_def maybe_deg_to_rad_def clamp_def
        DT_MIN_def DT_MAX_def ACC_G_TOL_def)
  have f: "snd (compute_axes (update_motion c_spin (64001 / 64)) (64002 / 64)) = (- 853, 0)"
    unfolding e
    by (simp add: compute_axes_def compute_axes_with_def c_spin_def c_fresh_def
        ControllerState_new_def MotionState_default_def Let_def axis_def maybe_deg_to_rad_def
        clamp_def py_int_def INVERT_RX_def INVERT_RY_def)
  from a b c d f show ?thesis by simp
qed

subsection \<open>Integrating the pitch\<close>

lemma motion_with_sample: "motion (with_sample c s) = motion c"
  by (simp add: with_sample_def)

lemma acc_mag_level: "acc_mag (snd (snd level_sample)) = 9.81"
proof -
  have "sqrt (9.81 * 9.81) = \<bar>9.81 :: real\<bar>" by (rule real_sqrt_abs2)
  then show ?thesis by (simp add: acc_mag_def level_sample_def axis_def)
qed

lemma accel_to_pitch_level: "accel_to_pitch 0 0 9.81 = 0"
proof -
  have "sqrt (9.81 * 9.81) = \<bar>9.81 :: real\<bar>" by (rule real_sqrt_abs2)
  then show ?thesis by (simp add: accel_to_pitch_def atan2_def Let_def)
qed

lemma update_motion_level:
  assumes "last_ts (motion c) \<noteq> 0"
  shows "update_motion (with_sample c level_sample) (last_ts (motion c) + 1 / 64) =
           (with_sample c level_sample)\<lparr>motion := (motion c)\<lparr>
              last_ts := last_ts (motion c) + 1 / 64,
              pitch := (if \<bar>pitch (motion c) + 1 / 640\<bar> > 0.03
                        then 0.985 * (pitch (motion c) + 1 / 640)
                        else pitch (motion c) + 1 / 640)\<rparr>\<rparr>"
proof -
  have s: "sqrt (9.81 * 9.81) = \<bar>9.81 :: real\<bar>" by (rule real_sqrt_abs2)
  show ?thesis
    using assms s accel_to_pitch_level
    by (simp add: update_motion_def with_sample_def level_sample_def Let_def axis_def clamp_def
        DT_MIN_def DT_MAX_def maybe_deg_to_rad_def ACC_G_TOL_def DRIFT_ERR_THRESH_def
        DRIFT_STEP_def CF_ALPHA_def algebra_simps)
qed


lemma motion_run_append: "motion_run c (xs @ ys) = motion_run (motion_run c xs) ys"
  by (induction xs arbitrary: c) auto

lemma uniform_run_add:
  "uniform_run s t dt (m + n) = uniform_run s t dt m @ uniform_run s (t + real m * dt) dt n"
  by (induction m arbitrary: t) (auto simp: algebra_simps)

text \<open>While the integrated pitch stays within 0.03 of the level reading, nothing is corrected.\<close>

lemma level_run_below:
  assumes "0 < last_ts (motion c)" and "0 \<le> pitch (motion c)"
      and "pitch (motion c) + real n / 640 \<le> 0.03"
  shows "pitch (motion (motion_run c (uniform_run level_sample (last_ts (motion c)) (1 / 64) n)))
           = pitch (motion c) + real n / 640
         \<and> last_ts (motion (motion_run c (uniform_run level_sample (last_ts (motion c)) (1 / 64) n)))
           = last_ts (motion c) + real n / 64"
  using assms
proof (induction n arbitrary: c)
  case 0
  then show ?case by simp
next
  case (Suc n)
  let ?c1 = "update_motion (with_sample c level_sample) (last_ts (motion c) + 1 / 64)"
  from Suc.prems have nz: "last_ts (motion c) \<noteq> 0" by simp
  from Suc.prems have small: "\<not> \<bar>pitch (motion c) + 1 / 640\<bar> > 0.03"
    by (simp add: field_simps)
  have p1: "pitch (motion ?c1) = pitch (motion c) + 1 / 640"
    and t1: "last_ts (motion ?c1) = last_ts (motion c) + 1 / 64"
    using small by (simp_all add: update_motion_level [OF nz])
  have run: "motion_run c (uniform_run level_sample (last_ts (motion c)) (1 / 64) (Suc n)) =
      motion_run ?c1 (uniform_run level_sample (last_ts (motion ?c1)) (1 / 64) n)"
    by (simp add: t1)
  have a: "0 < last_ts (motion ?c1)"
    using Suc.prems(1) unfolding t1 by simp
  have b: "0 \<le> pitch (motion ?c1)"
    using Suc.prems(2) unfolding p1 by simp
  have c: "pitch (motion ?c1) + real n / 640 \<le> 0.03"
    using Suc.prems(3) unfolding p1 by (simp add: add_divide_distrib)
  have "pitch (motion c) + 1 / 640 + real n / 640 = pitch (motion c) + real (Suc n) / 640"
    and "last_ts (motion c) + 1 / 64 + real n / 64 = last_ts (motion c) + real (Suc n) / 64"
    by (simp_all add: add_divide_distrib)
  with Suc.IH [OF a b c] show ?case
    unfolding run p1 t1 by simp
qed

text \<open>Once it is beyond, every tick pulls it back by 1.5 per cent.\<close>

lemma level_run_above:
  assumes "0 < last_ts (motion c)" and "0.0295 \<le> pitch (motion c)"
  shows "pitch (motion (motion_run c (uniform_run level_sample (last_ts (motion c)) (1 / 64) n)))
           \<le> pitch (motion c) + real n * 0.0011125"
  using assms
proof (induction n arbitrary: c)
  case 0
  then show ?case by simp
next
  case (Suc n)
  let ?c1 = "update_motion (with_sample c level_sample) (last_ts (motion c) + 1 / 64)"
  from Suc.prems have nz: "last_ts (motion c) \<noteq> 0" by simp
  from Suc.prems have big: "\<bar>pitch (motion c) + 1 / 640\<bar> > 0.03"
    by simp
  have p1: "pitch (motion ?c1) = 0.985 * (pitch (motion c) + 1 / 640)"
    and t1: "last_ts (motion ?c1) = last_ts (motion c) + 1 / 64"
    using big by (simp_all add: update_motion_level [OF nz])
  have run: "motion_run c (uniform_run level_sample (last_ts (motion c)) (1 / 64) (Suc n)) =
      motion_run ?c1 (uniform_run level_sample (last_ts (motion ?c1)) (1 / 64) n)"
    by (simp add: t1)
  have lo: "0.0295 \<le> pitch (motion ?c1)"
    using Suc.prems(2) unfolding p1 by simp
  have hi: "pitch (motion ?c1) \<le> pitch (motion c) + 0.0011125"
    using Suc.prems(2) unfolding p1 by simp
  have a: "0 < last_ts (motion ?c1)"
    using Suc.prems(1) unfolding t1 by simp
  have "pitch (motion c) + 0.0011125 + real n * 0.0011125
          = pitch (motion c) + real (Suc n) * 0.0011125"
    by (simp add: algebra_simps)
  with Suc.IH [OF a lo] hi show ?case
    unfolding run by linarith
qed

text \<open>
  Claim C9 as stated: gyro x-rate 0.1 for 64 ticks of 1/64 s, every sample with
  accelerometer (0, 0, 9.81), magnitude exactly 9.81. The magnitude is inside the
  band, the accelerometer pitch 0 is used, and from the twentieth tick on each update
  is pulled back: the pitch ends below 0.08, not at 0.1.
\<close>

theorem level_pitch_pulled_back:
  "acc_mag (snd (snd level_sample)) = 9.81
   \<and> pitch (motion c_rest) = 0
   \<and> pitch (motion (motion_run c_rest (uniform_run level_sample 1000 (1 / 64) 64))) < 0.08"
proof -
  let ?c19 = "motion_run c_rest (uniform_run level_sample 1000 (1 / 64) 19)"
  have r: "last_ts (motion c_rest) = 1000" "pitch (motion c_rest) = 0"
    by (simp_all add: c_rest_def MotionState_default_def)
  have "pitch (motion ?c19) = 19 / 640 \<and> last_ts (motion ?c19) = 1000 + 19 / 64"
    using level_run_below [of c_rest 19] by (simp add: r)
  then have p19: "pitch (motion ?c19) = 19 / 640" and t19: "last_ts (motion ?c19) = 1000 + 19 / 64"
    by simp_all
  have "pitch (motion (motion_run ?c19 (uniform_run level_sample (last_ts (motion ?c19)) (1 / 64) 45)))
          \<le> pitch (motion ?c19) + real 45 * 0.0011125"
    by (rule level_run_above) (simp_all add: p19 t19)
  moreover have "uniform_run level_sample 1000 (1 / 64) 64 =
      uniform_run level_sample 1000 (1 / 64) 19 @ uniform_run level_sample (1000 + 19 / 64) (1 / 64) 45"
    using uniform_run_add [of level_sample 1000 "1 / 64" 19 45] by simp
  ultimately have "pitch (motion (motion_run c_rest (uniform_run level_sample 1000 (1 / 64) 64))) < 0.08"
    by (simp add: motion_run_append p19 t19)
  with acc_mag_level r show ?thesis by simp
qed

lemma update_motion_uncorrected:
  assumes "last_ts (motion c) \<noteq> 0"
      and "DT_MIN \<le> now - last_ts (motion c)" and "now - last_ts (motion c) \<le> DT_MAX"
      and "\<bar>acc_mag (accel c) - 9.81\<bar> \<ge> ACC_G_TOL"
      and "\<bar>axis (gyro c) ''x''\<bar> \<le> 20"
  shows "pitch (motion (update_motion c now)) =
           pitch (motion c) + axis (gyro c) ''x'' * (now - last_ts (motion c))"
    and "last_ts (motion (update_motion c now)) = now"
  using assms
  by (simp_all add: update_motion_def Let_def clamp_id acc_mag_def maybe_deg_to_rad_def)

lemma motion_run_uncorrected:
  assumes "0 < last_ts (motion c)"
      and "steps_within DT_MIN DT_MAX (last_ts (motion c)) (map snd run)"
      and "\<forall>(s, now) \<in> set run.
             axis (fst (snd s)) ''x'' = g \<and> \<bar>acc_mag (snd (snd s)) - 9.81\<bar> \<ge> ACC_G_TOL"
      and "\<bar>g\<bar> \<le> 20"
  shows "pitch (motion (motion_run c run)) =
           pitch (motion c) + g * (last (last_ts (motion c) # map snd run) - last_ts (motion c))"
  using assms
proof (induction run arbitrary: c)
  case Nil
  then show ?case by simp
next
  case (Cons e run)
  obtain s now where e: "e = (s, now)" by (cases e)
  let ?c0 = "with_sample c s"
  let ?c1 = "update_motion ?c0 now"
  have m0: "motion ?c0 = motion c" "gyro ?c0 = fst (snd s)" "accel ?c0 = snd (snd s)"
    by (simp_all add: with_sample_def)
  from Cons.prems e have st: "DT_MIN \<le> now - last_ts (motion c)" "now - last_ts (motion c) \<le> DT_MAX"
    "steps_within DT_MIN DT_MAX now (map snd run)"
    by simp_all
  from Cons.prems e have smp: "axis (fst (snd s)) ''x'' = g" "\<bar>acc_mag (snd (snd s)) - 9.81\<bar> \<ge> ACC_G_TOL"
    by auto
  from Cons.prems(1) have nz: "last_ts (motion ?c0) \<noteq> 0" by (simp add: m0)
  have p1: "pitch (motion ?c1) = pitch (motion c) + g * (now - last_ts (motion c))"
    and t1: "last_ts (motion ?c1) = now"
    using update_motion_uncorrected [of ?c0 now] nz st smp Cons.prems(4) by (simp_all add: m0)
  from st(1) Cons.prems(1) have pos: "0 < last_ts (motion ?c1)"
    by (simp add: t1 DT_MIN_def)
  have "pitch (motion (motion_run ?c1 run)) =
          pitch (motion ?c1) + g * (last (last_ts (motion ?c1) # map snd run) - last_ts (motion ?c1))"
    using Cons.IH [of ?c1] pos st(3) Cons.prems(3,4) by (simp add: t1)
  then show ?case
    by (simp add: e p1 t1 algebra_simps)
qed

lemma uniform_run_steps:
  "lo \<le> dt \<Longrightarrow> dt \<le> hi \<Longrightarrow> steps_within lo hi t (map snd (uniform_run s t dt n))"
  by (induction n arbitrary: t) auto

lemma uniform_run_last: "last (t # map snd (uniform_run s t dt n)) = t + real n * dt"
  by (induction n arbitrary: t) (auto simp: algebra_simps)

lemma uniform_run_sample: "e \<in> set (uniform_run s t dt n) \<Longrightarrow> fst e = s"
  by (induction n arbitrary: t) auto

text \<open>
  Claim C9, as the code has it. Gyro x-rate 0.1 is integrated from a running
  integrator over ticks that span exactly 1 s, each 1/500 s to 1/40 s after the one
  before (no interval is clamped), and every sample's accelerometer magnitude is
  outside the band of 1.2 around 9.81, where the code applies no correction: then the
  pitch has grown by 0.1 exactly, in real arithmetic.
\<close>

theorem pitch_integration_outside_band:
  assumes "0 < last_ts (motion c)"
      and "steps_within DT_MIN DT_MAX (last_ts (motion c)) (map snd run)"
      and "\<forall>(s, now) \<in> set run.
             axis (fst (snd s)) ''x'' = 0.1 \<and> \<bar>acc_mag (snd (snd s)) - 9.81\<bar> \<ge> ACC_G_TOL"
      and "last (last_ts (motion c) # map snd run) - last_ts (motion c) = 1"
  shows "pitch (motion (motion_run c run)) = pitch (motion c) + 0.1"
  using motion_run_uncorrected [OF assms(1-3)] assms(4) by simp

text \<open>The theorem at 40 ticks of 1/40 s in free fall, from pitch 0.\<close>

theorem pitch_integration_outside_band_witness:
  "0 < last_ts (motion c_rest)
   \<and> steps_within DT_MIN DT_MAX 1000 (map snd (uniform_run falling_sample 1000 (1 / 40) 40))
   \<and> acc_mag (snd (snd falling_sample)) = 0
   \<and> last (1000 # map snd (uniform_run falling_sample 1000 (1 / 40) 40)) = 1001
   \<and> pitch (motion (motion_run c_rest (uniform_run falling_sample 1000 (1 / 40) 40))) = 0.1"
proof -
  have r: "last_ts (motion c_rest) = 1000" "pitch (motion c_rest) = 0"
    by (simp_all add: c_rest_def MotionState_default_def)
  have pos: "0 < last_ts (motion c_rest)" by (simp add: r)
  have st: "steps_within DT_MIN DT_MAX (last_ts (motion c_rest))
              (map snd (uniform_run falling_sample 1000 (1 / 40) 40))"
    unfolding r by (rule uniform_run_steps) (simp_all add: DT_MIN_def DT_MAX_def)
  have mag: "acc_mag (snd (snd falling_sample)) = 0"
    by (simp add: acc_mag_def falling_sample_def zero_vec_def axis_def)
  have smp: "\<forall>(s, now) \<in> set (uniform_run falling_sample 1000 (1 / 40) 40).
             axis (fst (snd s)) ''x'' = 0.1 \<and> \<bar>acc_mag (snd (snd s)) - 9.81\<bar> \<ge> ACC_G_TOL"
  proof (clarify)
    fix b g a now
    assume "((b, g, a), now) \<in> set (uniform_run falling_sample 1000 (1 / 40) 40)"
    then have "(b, g, a) = falling_sample" by (auto dest: uniform_run_sample)
    with mag show "axis (fst (snd (b, g, a))) ''x'' = 0.1
        \<and> \<bar>acc_mag (snd (snd (b, g, a))) - 9.81\<bar> \<ge> ACC_G_TOL"
      by (simp add: falling_sample_def axis_def ACC_G_TOL_def)
  qed
  have la0: "last (1000 # map snd (uniform_run falling_sample 1000 (1 / 40) 40)) = 1001"
    unfolding uniform_run_last by simp
  have la: "last (last_ts (motion c_rest) # map snd (uniform_run falling_sample 1000 (1 / 40) 40))
              - last_ts (motion c_rest) = 1"
    unfolding r la0 by simp
  have "pitch (motion (motion_run c_rest (uniform_run falling_sample 1000 (1 / 40) 40))) = 0.1"
    using pitch_integration_outside_band [OF pos st smp la] by (simp add: r)
  with pos st [unfolded r] mag la0 show ?thesis
    by blast
qed

subsection \<open>One pass of the bridge loop\<close>

lemma bridge_tick_unfold:
  "bridge_tick c k =
     (let c1 = update_motion c (t_motion k);
          r = home_recenter c1 (t_home k) (t_arm k);
          a = compute_axes (fst r) (t_axes k);
          w = swing_check (fst a) (t_swing k);
          ps = control_parts (buttons (fst w)) (snd w) (fst (snd a)) (snd (snd a))
      in (fst w, \<lparr>recentered = snd r, swing = snd w, parts = ps, line = join '','' ps\<rparr>))"
  by (simp add: bridge_tick_def Let_def split: prod.splits)

text \<open>Each stage rewrites the motion state only.\<close>

lemma update_motion_sample:
  "buttons (update_motion c now) = buttons c \<and> gyro (update_motion c now) = gyro c
   \<and> accel (update_motion c now) = accel c"
  by (simp add: update_motion_def Let_def)

lemma home_recenter_sample:
  "buttons (fst (home_recenter c t t')) = buttons c \<and> gyro (fst (home_recenter c t t')) = gyro c
   \<and> accel (fst (home_recenter c t t')) = accel c"
  by (simp add: home_recenter_def Let_def split: option.splits)

lemma compute_axes_sample:
  "buttons (fst (compute_axes c now)) = buttons c \<and> gyro (fst (compute_axes c now)) = gyro c
   \<and> accel (fst (compute_axes c now)) = accel c"
  by (simp add: compute_axes_def compute_axes_with_def Let_def)

lemma swing_check_sample:
  "buttons (fst (swing_check c now)) = buttons c \<and> gyro (fst (swing_check c now)) = gyro c
   \<and> accel (fst (swing_check c now)) = accel c"
  by (simp add: swing_check_def Let_def)

lemma home_recenter_last_swing:
  "last_swing (motion (fst (home_recenter c t t'))) = last_swing (motion c)"
  by (simp add: home_recenter_def Let_def split: option.splits)

lemma swing_check_references:
  "pitch0 (motion (fst (swing_check c now))) = pitch0 (motion c)
   \<and> yaw0 (motion (fst (swing_check c now))) = yaw0 (motion c)
   \<and> home_hold (motion (fst (swing_check c now))) = home_hold (motion c)"
  by (simp add: swing_check_def Let_def)

text \<open>The swing flag and the swing time of one pass, from the controller it starts on.\<close>

lemma bridge_tick_swing:
  "swing (snd (bridge_tick c k)) \<longleftrightarrow>
     \<bar>axis (accel c) ''x''\<bar> > SWING_THRESHOLD \<and> t_swing k - last_swing (motion c) > SWING_COOLDOWN"
  by (simp add: bridge_tick_unfold Let_def swing_check_def compute_axes_sample
      home_recenter_sample update_motion_sample compute_axes_keeps_references
      home_recenter_last_swing update_motion_keeps_references)

lemma bridge_tick_last_swing:
  "last_swing (motion (fst (bridge_tick c k))) =
     (if swing (snd (bridge_tick c k)) then t_swing k else last_swing (motion c))"
  by (simp add: bridge_tick_unfold Let_def swing_check_def compute_axes_sample
      home_recenter_sample update_motion_sample compute_axes_keeps_references
      home_recenter_last_swing update_motion_keeps_references)

lemma bridge_tick_sample:
  "buttons (fst (bridge_tick c k)) = buttons c \<and> gyro (fst (bridge_tick c k)) = gyro c
   \<and> accel (fst (bridge_tick c k)) = accel c"
  by (simp add: bridge_tick_unfold Let_def swing_check_sample compute_axes_sample
      home_recenter_sample update_motion_sample)

text \<open>The recenter flag and the hold timer of one pass.\<close>

lemma home_recenter_fired:
  "snd (home_recenter c t t') \<longleftrightarrow>
     home_now c = 1 \<and> (\<exists>h. home_hold (motion c) = Some h \<and> t - h \<ge> RECENTER_HOLD_SEC)"
  by (simp add: home_recenter_def home_now_def Let_def split: option.splits)

lemma home_recenter_hold:
  "home_hold (motion (fst (home_recenter c t t'))) =
     (if home_now c \<noteq> 1 then None
      else if snd (home_recenter c t t') then Some (t' + 9999)
      else (case home_hold (motion c) of None \<Rightarrow> Some t | Some h \<Rightarrow> Some h))"
  by (simp add: home_recenter_def home_now_def Let_def split: option.splits)

lemma home_recenter_references:
  "pitch0 (motion (fst (home_recenter c t t'))) =
      (if snd (home_recenter c t t') then pitch (motion c) else pitch0 (motion c))
   \<and> yaw0 (motion (fst (home_recenter c t t'))) =
      (if snd (home_recenter c t t') then yaw (motion c) else yaw0 (motion c))"
  by (simp add: home_recenter_def home_now_def Let_def split: option.splits)

lemma home_now_update_motion: "home_now (update_motion c now) = home_now c"
  by (simp add: home_now_def update_motion_sample)

lemma bridge_tick_recentered:
  "recentered (snd (bridge_tick c k)) \<longleftrightarrow>
     home_now c = 1 \<and> (\<exists>h. home_hold (motion c) = Some h \<and> t_home k - h \<ge> RECENTER_HOLD_SEC)"
  by (simp add: bridge_tick_unfold Let_def home_recenter_fired home_now_update_motion
      update_motion_keeps_references)

lemma bridge_tick_hold:
  "home_hold (motion (fst (bridge_tick c k))) =
     (if home_now c \<noteq> 1 then None
      else if recentered (snd (bridge_tick c k)) then Some (t_arm k + 9999)
      else (case home_hold (motion c) of None \<Rightarrow> Some (t_home k) | Some h \<Rightarrow> Some h))"
  by (simp add: bridge_tick_unfold Let_def swing_check_references compute_axes_keeps_references
      home_recenter_hold home_now_update_motion update_motion_keeps_references)

lemma bridge_tick_references:
  "pitch0 (motion (fst (bridge_tick c k))) =
      (if recentered (snd (bridge_tick c k)) then pitch (motion (update_motion c (t_motion k)))
       else pitch0 (motion c))
   \<and> yaw0 (motion (fst (bridge_tick c k))) =
      (if recentered (snd (bridge_tick c k)) then yaw (motion (update_motion c (t_motion k)))
       else yaw0 (motion c))"
  by (simp add: bridge_tick_unfold Let_def swing_check_references compute_axes_keeps_references
      home_recenter_references update_motion_keeps_references)


lemma bridge_run_Cons:
  "bridge_run c ((s, k) # rest) =
     (fst (bridge_run (fst (bridge_tick (with_sample c s) k)) rest),
      snd (bridge_tick (with_sample c s) k) # snd (bridge_run (fst (bridge_tick (with_sample c s) k)) rest))"
  by (simp add: split_beta Let_def)

declare bridge_run.simps(2) [simp del]

lemma accel_with_sample: "accel (with_sample c s) = snd (snd s)"
  by (simp add: with_sample_def)

lemma home_now_with_sample: "fst s ''HOME'' = Some v \<Longrightarrow> home_now (with_sample c s) = v"
  by (simp add: with_sample_def home_now_def)

text \<open>Swings of a run: each is more than the cool-down after the one before.\<close>

lemma bridge_run_swing_times:
  "sorted_wrt (\<lambda>a b. b - a > SWING_COOLDOWN) (swing_times run (snd (bridge_run c run)))
   \<and> (\<forall>t \<in> set (swing_times run (snd (bridge_run c run))). t - last_swing (motion c) > SWING_COOLDOWN)"
proof (induction run arbitrary: c)
  case Nil
  show ?case by simp
next
  case (Cons e run)
  obtain s k where e: "e = (s, k)" by (cases e)
  let ?c0 = "with_sample c s"
  let ?c1 = "fst (bridge_tick ?c0 k)"
  let ?out = "snd (bridge_tick ?c0 k)"
  let ?ts = "swing_times run (snd (bridge_run ?c1 run))"
  have ih: "sorted_wrt (\<lambda>a b. b - a > SWING_COOLDOWN) ?ts"
    "\<forall>t \<in> set ?ts. t - last_swing (motion ?c1) > SWING_COOLDOWN"
    using Cons.IH [of ?c1] by simp_all
  have ls: "last_swing (motion ?c1) = (if swing ?out then t_swing k else last_swing (motion c))"
    by (simp add: bridge_tick_last_swing motion_with_sample)
  show ?case
  proof (cases "swing ?out")
    case True
    then have gap: "t_swing k - last_swing (motion c) > SWING_COOLDOWN"
      by (simp add: bridge_tick_swing motion_with_sample)
    from ih(2) ls True have after: "\<forall>t \<in> set ?ts. t - t_swing k > SWING_COOLDOWN"
      by simp
    with gap have "\<forall>t \<in> set ?ts. t - last_swing (motion c) > SWING_COOLDOWN"
      by (auto simp: SWING_COOLDOWN_def)
    with True gap after ih(1) show ?thesis
      by (simp add: e bridge_run_Cons)
  next
    case False
    with ih ls show ?thesis
      by (simp add: e bridge_run_Cons)
  qed
qed

text \<open>While the guard value is ahead of the clock, a held HOME does nothing.\<close>

lemma bridge_run_armed:
  assumes "home_hold (motion c) = Some h"
      and "\<forall>(s, k) \<in> set run. fst s ''HOME'' = Some 1 \<and> t_home k - h < RECENTER_HOLD_SEC"
  shows "filter recentered (snd (bridge_run c run)) = []"
  using assms
proof (induction run arbitrary: c)
  case Nil
  show ?case by simp
next
  case (Cons e run)
  obtain s k where e: "e = (s, k)" by (cases e)
  let ?c0 = "with_sample c s"
  let ?c1 = "fst (bridge_tick ?c0 k)"
  from Cons.prems e have hm: "home_now ?c0 = 1" and early: "t_home k - h < RECENTER_HOLD_SEC"
    by (simp_all add: home_now_with_sample)
  have nf: "\<not> recentered (snd (bridge_tick ?c0 k))"
    using early Cons.prems(1) by (simp add: bridge_tick_recentered motion_with_sample)
  have "home_hold (motion ?c1) = Some h"
    using nf hm Cons.prems(1) by (simp add: bridge_tick_hold motion_with_sample)
  moreover from Cons.prems(2) have "\<forall>(s, k) \<in> set run. fst s ''HOME'' = Some 1 \<and> t_home k - h < RECENTER_HOLD_SEC"
    by simp
  ultimately have "filter recentered (snd (bridge_run ?c1 run)) = []"
    by (rule Cons.IH)
  with nf show ?case
    by (simp add: e bridge_run_Cons)
qed

text \<open>A pending hold fires at the first pass that finds it old enough, and then no more.\<close>

lemma bridge_run_pending:
  assumes "home_hold (motion c) = Some T0"
      and "\<forall>(s, k) \<in> set run. fst s ''HOME'' = Some 1
             \<and> t_home k < T0 + 9999 + RECENTER_HOLD_SEC \<and> T0 \<le> t_arm k"
  shows "length (filter recentered (snd (bridge_run c run))) =
           (if \<exists>(s, k) \<in> set run. t_home k - T0 \<ge> RECENTER_HOLD_SEC then 1 else 0)"
  using assms
proof (induction run arbitrary: c)
  case Nil
  show ?case by simp
next
  case (Cons e run)
  obtain s k where e: "e = (s, k)" by (cases e)
  let ?c0 = "with_sample c s"
  let ?c1 = "fst (bridge_tick ?c0 k)"
  let ?out = "snd (bridge_tick ?c0 k)"
  from Cons.prems e have hm: "home_now ?c0 = 1" and arm: "T0 \<le> t_arm k"
    by (simp_all add: home_now_with_sample)
  from Cons.prems(2) have rest: "\<forall>(s, k) \<in> set run. fst s ''HOME'' = Some 1
             \<and> t_home k < T0 + 9999 + RECENTER_HOLD_SEC \<and> T0 \<le> t_arm k"
    by simp
  have fired: "recentered ?out \<longleftrightarrow> t_home k - T0 \<ge> RECENTER_HOLD_SEC"
    using hm Cons.prems(1) by (simp add: bridge_tick_recentered motion_with_sample)
  show ?case
  proof (cases "recentered ?out")
    case True
    then have hold: "home_hold (motion ?c1) = Some (t_arm k + 9999)"
      using hm by (simp add: bridge_tick_hold)
    from rest arm have "\<forall>(s, k') \<in> set run. fst s ''HOME'' = Some 1
        \<and> t_home k' - (t_arm k + 9999) < RECENTER_HOLD_SEC"
      by auto
    with hold have "filter recentered (snd (bridge_run ?c1 run)) = []"
      by (rule bridge_run_armed)
    with True fired show ?thesis
      by (simp add: e bridge_run_Cons)
  next
    case False
    then have "home_hold (motion ?c1) = Some T0"
      using hm Cons.prems(1) by (simp add: bridge_tick_hold motion_with_sample)
    from Cons.IH [OF this rest] False fired show ?thesis
      by (simp add: e bridge_run_Cons)
  qed
qed

lemma bridge_run_hold:
  assumes "home_hold (motion c) = None" and "fst s0 ''HOME'' = Some 1"
      and "\<forall>(s, k) \<in> set rest. fst s ''HOME'' = Some 1
             \<and> t_home k < t_home k0 + 9999 + RECENTER_HOLD_SEC \<and> t_home k0 \<le> t_arm k"
  shows "length (filter recentered (snd (bridge_run c ((s0, k0) # rest)))) =
           (if \<exists>(s, k) \<in> set rest. t_home k - t_home k0 \<ge> RECENTER_HOLD_SEC then 1 else 0)"
proof -
  let ?c0 = "with_sample c s0"
  let ?c1 = "fst (bridge_tick ?c0 k0)"
  from assms(2) have hm: "home_now ?c0 = 1"
    by (simp add: home_now_with_sample)
  have nf: "\<not> recentered (snd (bridge_tick ?c0 k0))"
    using assms(1) by (simp add: bridge_tick_recentered motion_with_sample)
  then have "home_hold (motion ?c1) = Some (t_home k0)"
    using hm assms(1) by (simp add: bridge_tick_hold motion_with_sample)
  from bridge_run_pending [OF this assms(3)] nf show ?thesis
    by (simp add: bridge_run_Cons)
qed

text \<open>The zero references after a run in which no pass recentered.\<close>

lemma bridge_run_references_kept:
  assumes "filter recentered (snd (bridge_run c run)) = []"
  shows "pitch0 (motion (fst (bridge_run c run))) = pitch0 (motion c)
         \<and> yaw0 (motion (fst (bridge_run c run))) = yaw0 (motion c)"
  using assms
proof (induction run arbitrary: c)
  case Nil
  show ?case by simp
next
  case (Cons e run)
  obtain s k where e: "e = (s, k)" by (cases e)
  let ?c0 = "with_sample c s"
  let ?c1 = "fst (bridge_tick ?c0 k)"
  from Cons.prems have nf: "\<not> recentered (snd (bridge_tick ?c0 k))"
    and rest: "filter recentered (snd (bridge_run ?c1 run)) = []"
    by (simp_all add: e bridge_run_Cons split: if_splits)
  from nf have "pitch0 (motion ?c1) = pitch0 (motion c) \<and> yaw0 (motion ?c1) = yaw0 (motion c)"
    by (simp add: bridge_tick_references motion_with_sample)
  with Cons.IH [OF rest] show ?case
    by (simp add: e bridge_run_Cons)
qed

subsection \<open>Swing\<close>

lemma three_swings:
  assumes "axis (snd (snd s1)) ''x'' = 3" and "axis (snd (snd s2)) ''x'' = 3"
      and "axis (snd (snd s3)) ''x'' = 3"
      and "t_swing k1 - last_swing (motion c) > SWING_COOLDOWN"
      and "t_swing k2 = t_swing k1 + 0.1" and "t_swing k3 = t_swing k2 + 0.1"
  shows "map swing (snd (bridge_run c [(s1, k1), (s2, k2), (s3, k3)])) = [True, False, False]"
proof -
  let ?c1 = "fst (bridge_tick (with_sample c s1) k1)"
  let ?c2 = "fst (bridge_tick (with_sample ?c1 s2) k2)"
  have s1: "swing (snd (bridge_tick (with_sample c s1) k1))"
    using assms(1,4)
    by (simp add: bridge_tick_swing accel_with_sample motion_with_sample SWING_THRESHOLD_def)
  then have l1: "last_swing (motion ?c1) = t_swing k1"
    by (simp add: bridge_tick_last_swing)
  have s2: "\<not> swing (snd (bridge_tick (with_sample ?c1 s2) k2))"
    using assms(5) l1
    by (simp add: bridge_tick_swing accel_with_sample motion_with_sample SWING_COOLDOWN_def)
  then have l2: "last_swing (motion ?c2) = t_swing k1"
    using l1 by (simp add: bridge_tick_last_swing motion_with_sample)
  have s3: "\<not> swing (snd (bridge_tick (with_sample ?c2 s3) k3))"
    using assms(5,6) l2
    by (simp add: bridge_tick_swing accel_with_sample motion_with_sample SWING_COOLDOWN_def)
  from s1 s2 s3 show ?thesis
    by (simp add: bridge_run_Cons)
qed

text \<open>
  Claim C8, as the code has it. A pass reports a swing exactly when the magnitude of
  the accelerometer x exceeds 2.3 and more than 0.25 s have passed since the last
  swing of the controller (at exactly 0.25 s there is none). So in every run the
  swings are pairwise more than 0.25 s apart, and three consecutive passes with x =
  3.0, 0.1 s apart, the first more than 0.25 s after the last swing, report exactly
  one swing, at the first pass.
\<close>

theorem swing_cooldown:
  "(swing (snd (bridge_tick c k)) \<longleftrightarrow>
      \<bar>axis (accel c) ''x''\<bar> > SWING_THRESHOLD \<and> t_swing k - last_swing (motion c) > SWING_COOLDOWN)
   \<and> sorted_wrt (\<lambda>a b. b - a > SWING_COOLDOWN) (swing_times run (snd (bridge_run c run)))
   \<and> (axis (snd (snd s1)) ''x'' = 3 \<and> axis (snd (snd s2)) ''x'' = 3 \<and> axis (snd (snd s3)) ''x'' = 3
        \<and> t_swing k1 - last_swing (motion c) > SWING_COOLDOWN
        \<and> t_swing k2 = t_swing k1 + 0.1 \<and> t_swing k3 = t_swing k2 + 0.1
      \<longrightarrow> map swing (snd (bridge_run c [(s1, k1), (s2, k2), (s3, k3)])) = [True, False, False])"
  using bridge_tick_swing [of c k] bridge_run_swing_times [of run c]
    three_swings [of s1 s2 s3 k1 c k2 k3]
  by blast

text \<open>The theorem at three such passes at 1000, 1000.1 and 1000.2 on a controller that never swung.\<close>

theorem swing_cooldown_witness:
  "t_swing (clock_at 1000) - last_swing (motion c_rest) > SWING_COOLDOWN
   \<and> map swing (snd (bridge_run c_rest
        [(swing_sample, clock_at 1000), (swing_sample, clock_at 1000.1), (swing_sample, clock_at 1000.2)]))
      = [True, False, False]"
proof -
  have x: "axis (snd (snd swing_sample)) ''x'' = 3"
    by (simp add: swing_sample_def axis_def)
  have g: "t_swing (clock_at 1000) - last_swing (motion c_rest) > SWING_COOLDOWN"
    by (simp add: clock_at_def c_rest_def MotionState_default_def SWING_COOLDOWN_def)
  have t: "t_swing (clock_at 1000.1) = t_swing (clock_at 1000) + 0.1"
     "t_swing (clock_at 1000.2) = t_swing (clock_at 1000.1) + 0.1"
    by (simp_all add: clock_at_def)
  from swing_cooldown [of c_rest "clock_at 1000" "[]" swing_sample swing_sample swing_sample
      "clock_at 1000" "clock_at 1000.1" "clock_at 1000.2"] x g t
  show ?thesis by blast
qed

text \<open>
  Claim C8 as stated fires when at least 0.25 s have elapsed. With the last swing at
  1000 and x = 3.0, the pass at 1000.25 has waited 0.25 s and reports no swing.
\<close>

theorem swing_not_at_cooldown:
  "\<bar>axis (accel (with_sample c_swung swing_sample)) ''x''\<bar> > SWING_THRESHOLD
   \<and> t_swing (clock_at (4001 / 4)) - last_swing (motion (with_sample c_swung swing_sample)) \<ge> SWING_COOLDOWN
   \<and> \<not> swing (snd (bridge_tick (with_sample c_swung swing_sample) (clock_at (4001 / 4))))"
  by (simp add: bridge_tick_swing accel_with_sample motion_with_sample swing_sample_def axis_def
      clock_at_def c_swung_def MotionState_default_def SWING_THRESHOLD_def SWING_COOLDOWN_def)

subsection \<open>Recenter\<close>

text \<open>
  Claim C7, as the code has it. Releasing HOME clears the hold timer and changes
  nothing else. A pass assigns the zero references exactly when HOME is held, a hold
  is pending and the clock is at least 0.6 s past its start; it then stores the pitch
  and yaw that \<open>update_motion\<close> has just left. For a continuous hold that starts with
  no hold pending and whose passes all read the clock less than 9999.6 s after the
  first one (the guard is the hold start moved 9999 s ahead of the clock), the zero
  references are assigned exactly once if some pass comes 0.6 s or more after the
  first, and never otherwise: a hold of 0.59 s assigns nothing, one of 0.61 s does.
\<close>

theorem recenter_gesture:
  "(home_now c \<noteq> 1 \<longrightarrow>
      home_recenter c t t' = (c\<lparr>motion := (motion c)\<lparr>home_hold := None\<rparr>\<rparr>, False))
   \<and> (recentered (snd (bridge_tick c k)) \<longleftrightarrow>
        home_now c = 1 \<and> (\<exists>h. home_hold (motion c) = Some h \<and> t_home k - h \<ge> RECENTER_HOLD_SEC))
   \<and> pitch0 (motion (fst (bridge_tick c k))) =
        (if recentered (snd (bridge_tick c k)) then pitch (motion (update_motion c (t_motion k)))
         else pitch0 (motion c))
   \<and> yaw0 (motion (fst (bridge_tick c k))) =
        (if recentered (snd (bridge_tick c k)) then yaw (motion (update_motion c (t_motion k)))
         else yaw0 (motion c))
   \<and> (home_hold (motion c) = None \<and> fst sa ''HOME'' = Some 1
        \<and> (\<forall>(s, k) \<in> set rest. fst s ''HOME'' = Some 1
              \<and> t_home k < t_home ka + 9999 + RECENTER_HOLD_SEC \<and> t_home ka \<le> t_arm k)
      \<longrightarrow> length (filter recentered (snd (bridge_run c ((sa, ka) # rest)))) =
            (if \<exists>(s, k) \<in> set rest. t_home k - t_home ka \<ge> RECENTER_HOLD_SEC then 1 else 0))"
proof -
  have rel: "home_now c \<noteq> 1 \<longrightarrow>
      home_recenter c t t' = (c\<lparr>motion := (motion c)\<lparr>home_hold := None\<rparr>\<rparr>, False)"
    by (simp add: home_recenter_def home_now_def Let_def)
  from rel bridge_tick_recentered [of c k] bridge_tick_references [of c k]
    bridge_run_hold [of c sa rest ka]
  show ?thesis by blast
qed

text \<open>
  The theorem at holds that start at 1000: with passes at 1000.3 and 1000.61 there is
  one assignment, with passes at 1000.3 and 1000.59 none; and at a release.
\<close>

theorem recenter_gesture_witness:
  "length (filter recentered (snd (bridge_run c_rest
      [(home_sample, clock_at 1000), (home_sample, clock_at 1000.3), (home_sample, clock_at 1000.61)]))) = 1
   \<and> length (filter recentered (snd (bridge_run c_rest
      [(home_sample, clock_at 1000), (home_sample, clock_at 1000.3), (home_sample, clock_at 1000.59)]))) = 0
   \<and> home_now (with_sample c_rest idle_sample) \<noteq> 1
   \<and> home_recenter (with_sample c_rest idle_sample) 1000.6 1000.6 =
       ((with_sample c_rest idle_sample)\<lparr>motion := (motion c_rest)\<lparr>home_hold := None\<rparr>\<rparr>, False)"
proof -
  have h0: "home_hold (motion c_rest) = None"
    by (simp add: c_rest_def MotionState_default_def)
  have hs: "fst home_sample ''HOME'' = Some 1"
    by (simp add: home_sample_def)
  have r1: "\<forall>(s, k) \<in> set [(home_sample, clock_at 1000.3), (home_sample, clock_at 1000.61)].
       fst s ''HOME'' = Some 1
       \<and> t_home k < t_home (clock_at 1000) + 9999 + RECENTER_HOLD_SEC \<and> t_home (clock_at 1000) \<le> t_arm k"
    by (simp add: hs clock_at_def RECENTER_HOLD_SEC_def)
  have r2: "\<forall>(s, k) \<in> set [(home_sample, clock_at 1000.3), (home_sample, clock_at 1000.59)].
       fst s ''HOME'' = Some 1
       \<and> t_home k < t_home (clock_at 1000) + 9999 + RECENTER_HOLD_SEC \<and> t_home (clock_at 1000) \<le> t_arm k"
    by (simp add: hs clock_at_def RECENTER_HOLD_SEC_def)
  have idle: "home_now (with_sample c_rest idle_sample) \<noteq> 1"
    by (simp add: home_now_def with_sample_def idle_sample_def)
  note thm1 = recenter_gesture [where c = c_rest and sa = home_sample and ka = "clock_at 1000"
      and rest = "[(home_sample, clock_at 1000.3), (home_sample, clock_at 1000.61)]"]
  note thm2 = recenter_gesture [where c = c_rest and sa = home_sample and ka = "clock_at 1000"
      and rest = "[(home_sample, clock_at 1000.3), (home_sample, clock_at 1000.59)]"]
  note thm3 = recenter_gesture [where c = "with_sample c_rest idle_sample" and t = "1000.6"
      and t' = "1000.6"]
  have a: "length (filter recentered (snd (bridge_run c_rest
      [(home_sample, clock_at 1000), (home_sample, clock_at 1000.3), (home_sample, clock_at 1000.61)]))) = 1"
    using thm1 h0 hs r1 by (simp add: clock_at_def RECENTER_HOLD_SEC_def)
  have b: "length (filter recentered (snd (bridge_run c_rest
      [(home_sample, clock_at 1000), (home_sample, clock_at 1000.3), (home_sample, clock_at 1000.59)]))) = 0"
    using thm2 h0 hs r2 by (simp add: clock_at_def RECENTER_HOLD_SEC_def)
  have c: "home_recenter (with_sample c_rest idle_sample) 1000.6 1000.6 =
       ((with_sample c_rest idle_sample)\<lparr>motion := (motion c_rest)\<lparr>home_hold := None\<rparr>\<rparr>, False)"
    using thm3 idle by (simp add: motion_with_sample)
  from a b c idle show ?thesis by simp
qed

text \<open>
  Claim C7 as stated allows one assignment for each continuous hold. HOME held over
  the passes at 1000, 1001 and 11001: the second pass assigns and puts the guard at
  11000, and the third pass, 10000 s later in the same hold, assigns again.
\<close>

theorem home_hold_fires_twice:
  "map recentered (snd (bridge_run c_rest
      [(home_sample, clock_at 1000), (home_sample, clock_at 1001), (home_sample, clock_at 11001)]))
     = [False, True, True]"
proof -
  let ?c1 = "fst (bridge_tick (with_sample c_rest home_sample) (clock_at 1000))"
  let ?c2 = "fst (bridge_tick (with_sample ?c1 home_sample) (clock_at 1001))"
  have hm: "\<And>c. home_now (with_sample c home_sample) = 1"
    by (rule home_now_with_sample) (simp add: home_sample_def)
  have h0: "home_hold (motion c_rest) = None"
    by (simp add: c_rest_def MotionState_default_def)
  have f1: "\<not> recentered (snd (bridge_tick (with_sample c_rest home_sample) (clock_at 1000)))"
    using h0 by (simp add: bridge_tick_recentered motion_with_sample)
  then have h1: "home_hold (motion ?c1) = Some 1000"
    using h0 hm by (simp add: bridge_tick_hold motion_with_sample clock_at_def)
  have f2: "recentered (snd (bridge_tick (with_sample ?c1 home_sample) (clock_at 1001)))"
    using h1 hm
    by (simp add: bridge_tick_recentered motion_with_sample clock_at_def RECENTER_HOLD_SEC_def)
  then have h2: "home_hold (motion ?c2) = Some 11000"
    using hm by (simp add: bridge_tick_hold clock_at_def)
  have f3: "recentered (snd (bridge_tick (with_sample ?c2 home_sample) (clock_at 11001)))"
    using h2 hm
    by (simp add: bridge_tick_recentered motion_with_sample clock_at_def RECENTER_HOLD_SEC_def)
  from f1 f2 f3 show ?thesis
    by (simp add: bridge_run_Cons)
qed

subsection \<open>The control line\<close>

lemma str_int_bit: "str_int 0 = ''0''" "str_int 1 = ''1''"
  by (simp_all add: str_int_def str_nat.simps digit_char_def)

lemma button_part_bit:
  "button_part btns (w, key) =
     key @ ''='' @ (if (case btns w of None \<Rightarrow> 0 | Some v \<Rightarrow> v) \<noteq> 0 then ''1'' else ''0'')"
  by (simp add: button_part_def str_int_bit)

lemma control_parts_keys:
  "map field_key (control_parts btns sw RX RY) =
     map snd WII_TO_BRIDGE @ (if sw then [''A''] else []) @ [''RX'', ''RY'']"
  by (simp add: control_parts_def WII_TO_BRIDGE_def button_part_bit field_key_def)

lemma bridge_tick_parts:
  "\<exists>RX RY. parts (snd (bridge_tick c k)) = control_parts (buttons c) (swing (snd (bridge_tick c k))) RX RY"
  by (simp add: bridge_tick_unfold Let_def swing_check_sample compute_axes_sample
      home_recenter_sample update_motion_sample) blast

lemma bridge_tick_line: "line (snd (bridge_tick c k)) = join '','' (parts (snd (bridge_tick c k)))"
  by (simp add: bridge_tick_unfold Let_def)

lemma control_parts_A:
  "control_parts btns True RX RY ! 0 =
     ''A='' @ (if (case btns ''A'' of None \<Rightarrow> 0 | Some v \<Rightarrow> v) \<noteq> 0 then ''1'' else ''0'')
   \<and> control_parts btns True RX RY ! 11 = ''A=1''
   \<and> length (control_parts btns sw RX RY) = (if sw then 14 else 13)"
  by (simp add: control_parts_def WII_TO_BRIDGE_def button_part_bit)

lemma keys_swing:
  "count_list (map snd WII_TO_BRIDGE @ [''A''] @ [''RX'', ''RY'']) ''A'' = 2"
  by (simp add: WII_TO_BRIDGE_def)

lemma keys_no_swing:
  "distinct (map snd WII_TO_BRIDGE @ [''RX'', ''RY''])"
  by (simp add: WII_TO_BRIDGE_def)

text \<open>Splitting a joined list at the separator gives the list back.\<close>

lemma split_at_no_sep: "sep \<notin> set p \<Longrightarrow> split_at sep p = [p]"
  by (induction p) auto

lemma split_at_append: "sep \<notin> set p \<Longrightarrow> split_at sep (p @ sep # rest) = p # split_at sep rest"
  by (induction p) auto

lemma split_at_join:
  "ps \<noteq> [] \<Longrightarrow> \<forall>p \<in> set ps. sep \<notin> set p \<Longrightarrow> split_at sep (join [sep] ps) = ps"
proof (induction "[sep]" ps rule: join.induct)
  case 1
  then show ?case by simp
next
  case (2 p)
  then show ?case by (simp add: split_at_no_sep)
next
  case (3 p q ps)
  then show ?case by (simp add: split_at_append)
qed

lemma digit_char_set: "d < 10 \<Longrightarrow> digit_char d \<in> set ''0123456789''"
  unfolding digit_char_def by (rule nth_mem) simp

lemma str_nat_digits: "set (str_nat n) \<subseteq> set ''0123456789''"
proof (induction n rule: str_nat.induct)
  case (1 n)
  show ?case
  proof (cases "n < 10")
    case True
    then show ?thesis
      using digit_char_set [of n] by (subst str_nat.simps) simp
  next
    case False
    have "n mod 10 < 10" by simp
    then have "digit_char (n mod 10) \<in> set ''0123456789''" by (rule digit_char_set)
    with False "1.IH" show ?thesis
      by (subst str_nat.simps) simp
  qed
qed

lemma str_int_no_comma: "CHR '','' \<notin> set (str_int i)"
  using str_nat_digits [of "nat (- i)"] str_nat_digits [of "nat i"]
  by (auto simp: str_int_def)

lemma control_parts_no_comma: "\<forall>p \<in> set (control_parts btns sw RX RY). CHR '','' \<notin> set p"
  by (simp add: control_parts_def WII_TO_BRIDGE_def button_part_def str_int_no_comma)

lemma control_parts_not_Nil: "control_parts btns sw RX RY \<noteq> []"
  by (simp add: control_parts_def)

lemma split_control_line:
  "split_at CHR '','' (join '','' (control_parts btns sw RX RY)) = control_parts btns sw RX RY"
  by (rule split_at_join [OF control_parts_not_Nil control_parts_no_comma])

text \<open>
  Claim C10. The line sent is the fields of \<open>parts\<close> joined by commas, and splitting
  it at the commas gives these fields back. Their names are
  the eleven driver button names in table order, then a second \<open>A\<close> if the pass
  reported a swing, then \<open>RX\<close> and \<open>RY\<close>. With a swing the name \<open>A\<close> occurs twice:
  field 0 is \<open>A=0\<close> or \<open>A=1\<close> from the button map and field 11 is the added \<open>A=1\<close>, so
  with A released the line has both \<open>A=0\<close> and \<open>A=1\<close>. Without a swing no name occurs
  twice.
\<close>

theorem control_line_fields:
  "line (snd (bridge_tick c k)) = join '','' (parts (snd (bridge_tick c k)))
   \<and> split_at CHR '','' (line (snd (bridge_tick c k))) = parts (snd (bridge_tick c k))
   \<and> map field_key (parts (snd (bridge_tick c k))) =
       map snd WII_TO_BRIDGE @ (if swing (snd (bridge_tick c k)) then [''A''] else []) @ [''RX'', ''RY'']
   \<and> (swing (snd (bridge_tick c k)) \<longrightarrow>
        count_list (map field_key (parts (snd (bridge_tick c k)))) ''A'' = 2
        \<and> parts (snd (bridge_tick c k)) ! 0 =
            ''A='' @ (if (case buttons c ''A'' of None \<Rightarrow> 0 | Some v \<Rightarrow> v) \<noteq> 0 then ''1'' else ''0'')
        \<and> parts (snd (bridge_tick c k)) ! 11 = ''A=1''
        \<and> ((case buttons c ''A'' of None \<Rightarrow> 0 | Some v \<Rightarrow> v) = 0 \<longrightarrow>
             ''A=0'' \<in> set (parts (snd (bridge_tick c k))) \<and> ''A=1'' \<in> set (parts (snd (bridge_tick c k)))))
   \<and> (\<not> swing (snd (bridge_tick c k)) \<longrightarrow>
        distinct (map field_key (parts (snd (bridge_tick c k)))))"
proof -
  let ?out = "snd (bridge_tick c k)"
  obtain RX RY where ps: "parts ?out = control_parts (buttons c) (swing ?out) RX RY"
    using bridge_tick_parts by blast
  have keys: "map field_key (parts ?out) =
       map snd WII_TO_BRIDGE @ (if swing ?out then [''A''] else []) @ [''RX'', ''RY'']"
    unfolding ps by (rule control_parts_keys)
  have sw: "swing ?out \<longrightarrow>
        count_list (map field_key (parts ?out)) ''A'' = 2
        \<and> parts ?out ! 0 =
            ''A='' @ (if (case buttons c ''A'' of None \<Rightarrow> 0 | Some v \<Rightarrow> v) \<noteq> 0 then ''1'' else ''0'')
        \<and> parts ?out ! 11 = ''A=1''
        \<and> ((case buttons c ''A'' of None \<Rightarrow> 0 | Some v \<Rightarrow> v) = 0 \<longrightarrow>
             ''A=0'' \<in> set (parts ?out) \<and> ''A=1'' \<in> set (parts ?out))"
  proof
    assume s: "swing ?out"
    from s keys have c2: "count_list (map field_key (parts ?out)) ''A'' = 2"
      using keys_swing by simp
    from s ps have p: "parts ?out = control_parts (buttons c) True RX RY" by simp
    have a0: "parts ?out ! 0 =
            ''A='' @ (if (case buttons c ''A'' of None \<Rightarrow> 0 | Some v \<Rightarrow> v) \<noteq> 0 then ''1'' else ''0'')"
      and a11: "parts ?out ! 11 = ''A=1''" and len: "length (parts ?out) = 14"
      unfolding p using control_parts_A [of "buttons c" RX RY True] by simp_all
    have "(case buttons c ''A'' of None \<Rightarrow> 0 | Some v \<Rightarrow> v) = 0 \<longrightarrow>
             ''A=0'' \<in> set (parts ?out) \<and> ''A=1'' \<in> set (parts ?out)"
    proof
      assume "(case buttons c ''A'' of None \<Rightarrow> 0 | Some v \<Rightarrow> v) = 0"
      with a0 have "parts ?out ! 0 = ''A=0''" by simp
      moreover have "parts ?out ! 0 \<in> set (parts ?out)" "parts ?out ! 11 \<in> set (parts ?out)"
        using len by simp_all
      ultimately show "''A=0'' \<in> set (parts ?out) \<and> ''A=1'' \<in> set (parts ?out)"
        using a11 by simp
    qed
    with c2 a0 a11 show "count_list (map field_key (parts ?out)) ''A'' = 2
        \<and> parts ?out ! 0 =
            ''A='' @ (if (case buttons c ''A'' of None \<Rightarrow> 0 | Some v \<Rightarrow> v) \<noteq> 0 then ''1'' else ''0'')
        \<and> parts ?out ! 11 = ''A=1''
        \<and> ((case buttons c ''A'' of None \<Rightarrow> 0 | Some v \<Rightarrow> v) = 0 \<longrightarrow>
             ''A=0'' \<in> set (parts ?out) \<and> ''A=1'' \<in> set (parts ?out))"
      by simp
  qed
  have nsw: "\<not> swing ?out \<longrightarrow> distinct (map field_key (parts ?out))"
    using keys keys_no_swing by simp
  have spl: "split_at CHR '','' (line ?out) = parts ?out"
    unfolding bridge_tick_line ps by (rule split_control_line)
  from bridge_tick_line [of c k] spl keys sw nsw show ?thesis by blast
qed

lemma sqrt_9: "sqrt 9 = 3"
proof -
  have "sqrt (3 * 3) = \<bar>3 :: real\<bar>" by (rule real_sqrt_abs2)
  then show ?thesis by simp
qed

lemma swing_tick_motion:
  "update_motion (with_sample c_rest swing_sample) 1000 = with_sample c_rest swing_sample"
  using sqrt_9
  by (simp add: update_motion_def with_sample_def swing_sample_def c_rest_def c_fresh_def
      ControllerState_new_def MotionState_default_def zero_vec_def axis_def maybe_deg_to_rad_def
      clamp_def DT_MIN_def DT_MAX_def ACC_G_TOL_def Let_def)

lemma swing_tick_recenter:
  "home_recenter (with_sample c_rest swing_sample) 1000 1000 = (with_sample c_rest swing_sample, False)"
  by (simp add: home_recenter_def with_sample_def swing_sample_def c_rest_def c_fresh_def
      ControllerState_new_def MotionState_default_def Let_def)

lemma swing_tick_axes:
  "compute_axes (with_sample c_rest swing_sample) 1000 = (with_sample c_rest swing_sample, 0, 0)"
  by (simp add: compute_axes_def compute_axes_with_def with_sample_def swing_sample_def c_rest_def
      c_fresh_def ControllerState_new_def MotionState_default_def zero_vec_def axis_def
      maybe_deg_to_rad_def clamp_def Let_def py_int_def)

lemma swing_tick_check:
  "snd (swing_check (with_sample c_rest swing_sample) 1000) = True"
  by (simp add: swing_check_def with_sample_def swing_sample_def c_rest_def c_fresh_def
      ControllerState_new_def MotionState_default_def axis_def Let_def SWING_THRESHOLD_def
      SWING_COOLDOWN_def)

lemma swing_tick_line:
  "line (snd (bridge_tick (with_sample c_rest swing_sample) (clock_at 1000))) =
     ''A=0,B=0,X=0,Y=0,START=0,BACK=0,GUIDE=0,UP=0,DOWN=0,LEFT=0,RIGHT=0,A=1,RX=0,RY=0''"
proof -
  have b: "buttons (with_sample c_rest swing_sample) = [''A'' \<mapsto> 0]"
    by (simp add: with_sample_def swing_sample_def)
  have "line (snd (bridge_tick (with_sample c_rest swing_sample) (clock_at 1000))) =
          join '','' (control_parts [''A'' \<mapsto> 0] True 0 0)"
    by (simp add: bridge_tick_unfold Let_def clock_at_def swing_tick_motion swing_tick_recenter
        swing_tick_axes swing_tick_check swing_check_sample b)
  then show ?thesis
    by (simp add: control_parts_def WII_TO_BRIDGE_def button_part_bit str_int_bit)
qed

text \<open>The theorem at a pass with a swing and A released, and at a pass without a swing.\<close>

theorem control_line_fields_witness:
  "swing (snd (bridge_tick (with_sample c_rest swing_sample) (clock_at 1000)))
   \<and> (case buttons (with_sample c_rest swing_sample) ''A'' of None \<Rightarrow> 0 | Some v \<Rightarrow> v) = 0
   \<and> ''A=0'' \<in> set (parts (snd (bridge_tick (with_sample c_rest swing_sample) (clock_at 1000))))
   \<and> ''A=1'' \<in> set (parts (snd (bridge_tick (with_sample c_rest swing_sample) (clock_at 1000))))
   \<and> line (snd (bridge_tick (with_sample c_rest swing_sample) (clock_at 1000))) =
       ''A=0,B=0,X=0,Y=0,START=0,BACK=0,GUIDE=0,UP=0,DOWN=0,LEFT=0,RIGHT=0,A=1,RX=0,RY=0''
   \<and> \<not> swing (snd (bridge_tick (with_sample c_rest idle_sample) (clock_at 1000)))
   \<and> distinct (map field_key (parts (snd (bridge_tick (with_sample c_rest idle_sample) (clock_at 1000)))))"
proof -
  have sw: "swing (snd (bridge_tick (with_sample c_rest swing_sample) (clock_at 1000)))"
    by (simp add: bridge_tick_swing accel_with_sample motion_with_sample swing_sample_def axis_def
        clock_at_def c_rest_def MotionState_default_def SWING_THRESHOLD_def SWING_COOLDOWN_def)
  have rel: "(case buttons (with_sample c_rest swing_sample) ''A'' of None \<Rightarrow> 0 | Some v \<Rightarrow> v) = 0"
    by (simp add: with_sample_def swing_sample_def)
  have nsw: "\<not> swing (snd (bridge_tick (with_sample c_rest idle_sample) (clock_at 1000)))"
    by (simp add: bridge_tick_swing accel_with_sample idle_sample_def zero_vec_def axis_def
        SWING_THRESHOLD_def)
  from control_line_fields [of "with_sample c_rest swing_sample" "clock_at 1000"] sw rel
  have a: "''A=0'' \<in> set (parts (snd (bridge_tick (with_sample c_rest swing_sample) (clock_at 1000))))
     \<and> ''A=1'' \<in> set (parts (snd (bridge_tick (with_sample c_rest swing_sample) (clock_at 1000))))"
    by blast
  from control_line_fields [of "with_sample c_rest idle_sample" "clock_at 1000"] nsw
  have b: "distinct (map field_key (parts (snd (bridge_tick (with_sample c_rest idle_sample) (clock_at 1000)))))"
    by blast
  from sw rel a swing_tick_line nsw b show ?thesis by blast
qed

end
